theory Spec2Isabelle
  imports Main "HOL-Library.Sublist"
begin

section \<open>Python text primitives\<close>

text \<open>
  A Python \<open>str\<close> is modelled as a \<open>string\<close>; each \<open>char\<close> stands for one code point
  below 256. On that range \<open>str.isspace\<close> (also the class \<open>\s\<close> of \<open>re\<close> and the
  characters removed by \<open>str.strip()\<close>) holds for 9..13, 28..32, 133 and 160; the decimal
  digits (the class \<open>\d\<close>) are \<open>0\<close>..\<open>9\<close>; and \<open>str.splitlines\<close> breaks at 10..13,
  28..30 and 133, a carriage return followed by a line feed being one break.
\<close>

abbreviation newline :: char where
  "newline \<equiv> CHR 0x0A"

abbreviation carriage_return :: char where
  "carriage_return \<equiv> CHR 0x0D"

abbreviation quote :: char where
  "quote \<equiv> CHR 0x27"

definition isspace :: "char \<Rightarrow> bool" where
  "isspace c =
     (let n = (of_char c :: nat)
      in (9 \<le> n \<and> n \<le> 13) \<or> (28 \<le> n \<and> n \<le> 32) \<or> n = 133 \<or> n = 160)"

definition isdigit :: "char \<Rightarrow> bool" where
  "isdigit c = (let n = (of_char c :: nat) in 48 \<le> n \<and> n \<le> 57)"

definition islinebreak :: "char \<Rightarrow> bool" where
  "islinebreak c =
     (let n = (of_char c :: nat)
      in (10 \<le> n \<and> n \<le> 13) \<or> (28 \<le> n \<and> n \<le> 30) \<or> n = 133)"

definition strip :: "string \<Rightarrow> string" where
  "strip s = rev (dropWhile isspace (rev (dropWhile isspace s)))"

fun splitlines_from :: "string \<Rightarrow> string \<Rightarrow> string list" where
  "splitlines_from cur [] = (if cur = [] then [] else [cur])"
| "splitlines_from cur (c # cs) =
     (if c = carriage_return then
        (case cs of
           [] \<Rightarrow> [cur]
         | d # ds \<Rightarrow> if d = newline then cur # splitlines_from [] ds
                    else cur # splitlines_from [] (d # ds))
      else if islinebreak c then cur # splitlines_from [] cs
      else splitlines_from (cur @ [c]) cs)"

definition splitlines :: "string \<Rightarrow> string list" where
  "splitlines s = splitlines_from [] s"

text \<open>\<open>sep.join(xs)\<close>.\<close>

fun join_str :: "string \<Rightarrow> string list \<Rightarrow> string" where
  "join_str sep [] = []"
| "join_str sep [x] = x"
| "join_str sep (x # y # ys) = x @ sep @ join_str sep (y # ys)"

text \<open>\<open>a or b\<close> on strings: the empty string is falsy.\<close>

definition py_or :: "string \<Rightarrow> string \<Rightarrow> string" where
  "py_or a b = (if a \<noteq> [] then a else b)"

section \<open>Regular expressions\<close>

text \<open>
  The fragment of \<open>re\<close> the two patterns use: a literal, one character of a class, a
  greedy \<open>+\<close> on a class, a counted repetition \<open>{n}\<close> of a class, sequence, alternation,
  a numbered group and \<open>$\<close>. The matcher lists every way to match a prefix of the input,
  in the order a backtracking matcher tries them (a greedy \<open>+\<close> from the longest run down
  to one character, the left alternative first), each with the rest of the input and the
  groups captured; \<open>pattern.match\<close> is the first of them. The leading \<open>^\<close> of both patterns
  is implied by \<open>match\<close>, which only matches at the start of the string.
\<close>

datatype re =
    Lit string
  | Cls "char \<Rightarrow> bool"
  | Plus "char \<Rightarrow> bool"
  | Rep nat "char \<Rightarrow> bool"
  | Seq re re
  | Alt re re
  | Grp nat re
  | Eol

type_synonym caps = "nat \<Rightarrow> string option"

primrec ms :: "re \<Rightarrow> string \<Rightarrow> caps \<Rightarrow> (string \<times> caps) list" where
  "ms (Lit l) s c = (if prefix l s then [(drop (length l) s, c)] else [])"
| "ms (Cls C) s c = (case s of [] \<Rightarrow> [] | x # xs \<Rightarrow> if C x then [(xs, c)] else [])"
| "ms (Plus C) s c =
     map (\<lambda>k. (drop k s, c)) (rev [1 ..< Suc (length (takeWhile C s))])"
| "ms (Rep n C) s c =
     (if n \<le> length s \<and> list_all C (take n s) then [(drop n s, c)] else [])"
| "ms (Seq a b) s c = concat (map (\<lambda>(s', c'). ms b s' c') (ms a s c))"
| "ms (Alt a b) s c = ms a s c @ ms b s c"
| "ms (Grp n r) s c =
     map (\<lambda>(s', c'). (s', c'(n \<mapsto> take (length s - length s') s))) (ms r s c)"
| "ms Eol s c = (if s = [] \<or> s = [newline] then [(s, c)] else [])"

definition match_re :: "re \<Rightarrow> string \<Rightarrow> caps option" where
  "match_re r s = (case ms r s Map.empty of [] \<Rightarrow> None | (rest, c) # _ \<Rightarrow> Some c)"

text \<open>\<open>[0-9]{8}_[0-9]{6}\<close>, which both patterns contain.\<close>

definition timestamp_re :: re where
  "timestamp_re = Seq (Rep 8 isdigit) (Seq (Lit ''_'') (Rep 6 isdigit))"

text \<open>\<open>^\[\d+\]\s+(datezip_([0-9]{8}_[0-9]{6})_(FULL|INC)\.zip)\<close>\<close>

definition list_pattern :: re where
  "list_pattern =
     Seq (Lit ''['') (Seq (Plus isdigit) (Seq (Lit '']'') (Seq (Plus isspace)
       (Grp 1
          (Seq (Lit ''datezip_'')
          (Seq (Grp 2 timestamp_re)
          (Seq (Lit ''_'')
          (Seq (Grp 3 (Alt (Lit ''FULL'') (Lit ''INC'')))
               (Lit ''.zip'')))))))))"

text \<open>\<open>^([0-9]{8}_[0-9]{6})\s+([\+\.])\s+(.+)$\<close>\<close>

definition history_pattern :: re where
  "history_pattern =
     Seq (Grp 1 timestamp_re)
    (Seq (Plus isspace)
    (Seq (Grp 2 (Cls (\<lambda>c. c = CHR ''+'' \<or> c = CHR ''.'')))
    (Seq (Plus isspace)
    (Seq (Grp 3 (Plus (\<lambda>c. c \<noteq> newline)))
         Eol))))"

section \<open>The world: file system, temporary names, the external command\<close>

text \<open>
  Exceptions are values. The file system maps a path, compared literally, to what is
  there; \<open>.\<close>, \<open>..\<close>, repeated or trailing slashes, symbolic links and permissions are not
  modelled. The world also holds the names the temporary-name generator will propose,
  and the argument vector of every call of the \<open>datezip\<close> command so far, oldest first.
\<close>

datatype exn =
    RuntimeError string
  | FileNotFoundError
  | FileExistsError
  | NotADirectoryError
  | IsADirectoryError
  | OtherError string

datatype node = Dir | File string

type_synonym fsys = "string \<Rightarrow> node option"

record world =
  fs :: fsys
  tmp_names :: "string list"
  invocations :: "string list list"

text \<open>
  The external \<open>datezip\<close> program is a parameter: from its arguments and the file system it
  either fails to produce a result (it cannot be started, its output does not decode, the
  task is cancelled) or exits with a return code, the decoded standard output and the
  decoded standard error; in both cases it may have changed the file system.
\<close>

type_synonym process = "string list \<Rightarrow> fsys \<Rightarrow> (exn + (int \<times> string \<times> string)) \<times> fsys"

definition run_datezip ::
  "process \<Rightarrow> string list \<Rightarrow> world \<Rightarrow> (exn + (int \<times> string \<times> string)) \<times> world" where
  "run_datezip P args w =
     (case P args (fs w) of
        (r, fs') \<Rightarrow>
          let w' = w\<lparr>fs := fs', invocations := invocations w @ [args]\<rparr>
          in (case r of
                Inl e \<Rightarrow> (Inl e, w')
              | Inr (code, out, err) \<Rightarrow> (Inr (code, strip out, strip err), w')))"

section \<open>The tools\<close>

definition create_backup_args :: "string \<Rightarrow> string list" where
  "create_backup_args mode =
     (let args = [];
          args = (if mode = ''full'' then args @ [''--full'']
                  else if mode = ''inc'' then args @ [''--inc'']
                  else args)
      in args)"

definition create_backup :: "process \<Rightarrow> string \<Rightarrow> world \<Rightarrow> (exn + string) \<times> world" where
  "create_backup P mode w =
     (case run_datezip P (create_backup_args mode) w of
        (Inl e, w') \<Rightarrow> (Inl e, w')
      | (Inr (code, stdout, stderr), w') \<Rightarrow>
          if code \<noteq> 0
          then (Inr (''Backup failed:'' @ [newline] @ py_or stderr stdout), w')
          else (Inr (''Backup successful:'' @ [newline] @ stdout), w'))"

text \<open>
  A returned dictionary is an association list in the order of the literal; a value is
  \<open>None\<close> where \<open>match.group\<close> would give Python's \<open>None\<close>.
\<close>

type_synonym entry = "(string \<times> string option) list"

fun list_backups_loop :: "string list \<Rightarrow> entry list \<Rightarrow> entry list" where
  "list_backups_loop [] backups = backups"
| "list_backups_loop (line # lines) backups =
     (case match_re list_pattern (strip line) of
        None \<Rightarrow> list_backups_loop lines backups
      | Some m \<Rightarrow>
          list_backups_loop lines
            (backups @ [[(''filename'', m 1), (''timestamp'', m 2), (''type'', m 3)]]))"

definition list_backups :: "process \<Rightarrow> world \<Rightarrow> (exn + entry list) \<times> world" where
  "list_backups P w =
     (case run_datezip P [''--list''] w of
        (Inl e, w') \<Rightarrow> (Inl e, w')
      | (Inr (code, stdout, stderr), w') \<Rightarrow>
          if code \<noteq> 0
          then (Inl (RuntimeError (''Failed to list backups: '' @ stderr)), w')
          else (Inr (list_backups_loop (splitlines stdout) []), w'))"

fun get_history_loop :: "string list \<Rightarrow> entry list \<Rightarrow> entry list" where
  "get_history_loop [] history = history"
| "get_history_loop (line # lines) history =
     (case match_re history_pattern (strip line) of
        None \<Rightarrow> get_history_loop lines history
      | Some m \<Rightarrow>
          get_history_loop lines
            (history @ [[(''timestamp'', m 1),
                         (''status'', Some (if m 2 = Some ''+'' then ''new'' else ''modified'')),
                         (''file'', m 3)]]))"

text \<open>
  An optional argument is \<open>None\<close> when omitted. \<open>if files:\<close> holds for a list that is
  given and not empty, \<open>if from_ts:\<close> for a string that is given and not empty.
\<close>

definition get_history_args ::
  "string list option \<Rightarrow> string option \<Rightarrow> string option \<Rightarrow> string list" where
  "get_history_args files from_ts to_ts =
     (let args = [''--history''];
          args = (case files of
                    Some (f # fs') \<Rightarrow> args @ [''--files'', join_str '','' (f # fs')]
                  | _ \<Rightarrow> args);
          args = (case from_ts of
                    Some (c # cs) \<Rightarrow> args @ [''--from'', c # cs]
                  | _ \<Rightarrow> args);
          args = (case to_ts of
                    Some (c # cs) \<Rightarrow> args @ [''--to'', c # cs]
                  | _ \<Rightarrow> args)
      in args)"

definition get_history ::
  "process \<Rightarrow> string list option \<Rightarrow> string option \<Rightarrow> string option \<Rightarrow> world
     \<Rightarrow> (exn + entry list) \<times> world" where
  "get_history P files from_ts to_ts w =
     (case run_datezip P (get_history_args files from_ts to_ts) w of
        (Inl e, w') \<Rightarrow> (Inl e, w')
      | (Inr (code, stdout, stderr), w') \<Rightarrow>
          if code \<noteq> 0
          then (Inl (RuntimeError (''Failed to get history: '' @ stderr)), w')
          else (Inr (get_history_loop (splitlines stdout) []), w'))"

text \<open>
  The library calls of \<open>get_historical_content\<close>, after their documentation.
  \<open>tempfile.mkdtemp\<close> creates a directory under the first proposed name at which nothing
  exists yet, and fails when no proposed name is free. \<open>os.path.join\<close> of two components
  discards the first when the second is absolute. \<open>shutil.rmtree\<close> removes a directory
  and everything below it, and raises on a path that is missing or is a file.
\<close>

fun mkdtemp_pick :: "string list \<Rightarrow> fsys \<Rightarrow> (string \<times> string list) option" where
  "mkdtemp_pick [] f = None"
| "mkdtemp_pick (n # ns) f = (if f n = None then Some (n, ns) else mkdtemp_pick ns f)"

definition mkdtemp :: "world \<Rightarrow> (exn + string) \<times> world" where
  "mkdtemp w =
     (case mkdtemp_pick (tmp_names w) (fs w) of
        None \<Rightarrow> (Inl FileExistsError, w\<lparr>tmp_names := []\<rparr>)
      | Some (d, ns) \<Rightarrow> (Inr d, w\<lparr>fs := (fs w)(d \<mapsto> Dir), tmp_names := ns\<rparr>))"

definition path_join :: "string \<Rightarrow> string \<Rightarrow> string" where
  "path_join a b =
     (if prefix ''/'' b then b
      else if a = [] \<or> suffix ''/'' a then a @ b
      else a @ ''/'' @ b)"

definition path_exists :: "fsys \<Rightarrow> string \<Rightarrow> bool" where
  "path_exists f p = (f p \<noteq> None)"

definition read_text :: "fsys \<Rightarrow> string \<Rightarrow> exn + string" where
  "read_text f p =
     (case f p of
        None \<Rightarrow> Inl FileNotFoundError
      | Some Dir \<Rightarrow> Inl IsADirectoryError
      | Some (File content) \<Rightarrow> Inr content)"

definition below :: "string \<Rightarrow> string \<Rightarrow> bool" where
  "below d p = (p = d \<or> prefix (d @ ''/'') p)"

definition rmtree :: "string \<Rightarrow> world \<Rightarrow> (exn + unit) \<times> world" where
  "rmtree d w =
     (case fs w d of
        None \<Rightarrow> (Inl FileNotFoundError, w)
      | Some (File content) \<Rightarrow> (Inl NotADirectoryError, w)
      | Some Dir \<Rightarrow> (Inr (), w\<lparr>fs := (\<lambda>p. if below d p then None else fs w p)\<rparr>))"

text \<open>The body of the \<open>try\<close> block.\<close>

definition get_historical_content_try ::
  "process \<Rightarrow> string \<Rightarrow> string \<Rightarrow> string \<Rightarrow> world \<Rightarrow> (exn + string) \<times> world" where
  "get_historical_content_try P timestamp filename tmp_dir w =
     (let args = [''--restore-time'', timestamp, ''--files'', filename,
                  ''--dest'', tmp_dir, ''--restore-type'', ''e'']
      in case run_datezip P args w of
           (Inl e, w') \<Rightarrow> (Inl e, w')
         | (Inr (code, stdout, stderr), w') \<Rightarrow>
             if code \<noteq> 0
             then (Inr (''Error retrieving historical content: '' @ py_or stderr stdout), w')
             else
               let target_path = path_join tmp_dir filename
               in if path_exists (fs w') target_path
                  then (read_text (fs w') target_path, w')
                  else (Inr (''Error: File '' @ [quote] @ filename @ [quote]
                             @ '' not found in archive at timestamp '' @ timestamp @ ''.''),
                        w'))"

text \<open>
  \<open>try ... finally\<close>: the \<open>finally\<close> block runs after every outcome of the body; when it
  raises, its exception replaces that outcome.
\<close>

definition get_historical_content ::
  "process \<Rightarrow> string \<Rightarrow> string \<Rightarrow> world \<Rightarrow> (exn + string) \<times> world" where
  "get_historical_content P timestamp filename w =
     (case mkdtemp w of
        (Inl e, w1) \<Rightarrow> (Inl e, w1)
      | (Inr tmp_dir, w1) \<Rightarrow>
          (case get_historical_content_try P timestamp filename tmp_dir w1 of
             (r, w2) \<Rightarrow>
               (case rmtree tmp_dir w2 of
                  (Inl e, w3) \<Rightarrow> (Inl e, w3)
                | (Inr u, w3) \<Rightarrow> (r, w3))))"

definition restore_state_args :: "string \<Rightarrow> string list option \<Rightarrow> string \<Rightarrow> string list" where
  "restore_state_args timestamp files restore_type =
     (let args = [''--restore-time'', timestamp, ''--restore-type'', restore_type];
          args = (case files of
                    Some (f # fs') \<Rightarrow> args @ [''--files'', join_str '','' (f # fs')]
                  | _ \<Rightarrow> args)
      in args)"

definition restore_state ::
  "process \<Rightarrow> string \<Rightarrow> string list option \<Rightarrow> string \<Rightarrow> world \<Rightarrow> (exn + string) \<times> world" where
  "restore_state P timestamp files restore_type w =
     (case run_datezip P (restore_state_args timestamp files restore_type) w of
        (Inl e, w') \<Rightarrow> (Inl e, w')
      | (Inr (code, stdout, stderr), w') \<Rightarrow>
          if code \<noteq> 0
          then (Inr (''Restore failed:'' @ [newline] @ py_or stderr stdout), w')
          else (Inr (''Restore successful:'' @ [newline] @ stdout), w'))"

section \<open>The line formats, as the specification words them\<close>

text \<open>
  A timestamp is \<open>YYYYMMDD_HHMMSS\<close>: eight digits, an underscore, six digits. A line of
  the indexed form is an index in brackets, white space, and the file name
  \<open>datezip_<timestamp>_<FULL|INC>.zip\<close>, followed by anything. A history line is a
  timestamp, white space, the marker \<open>+\<close> or \<open>.\<close>, white space, and the file.
\<close>

definition is_timestamp :: "string \<Rightarrow> bool" where
  "is_timestamp ts =
     (length ts = 15 \<and> list_all isdigit (take 8 ts) \<and> ts ! 8 = CHR ''_''
      \<and> list_all isdigit (drop 9 ts))"

definition indexed_form :: "string \<Rightarrow> string \<Rightarrow> string \<Rightarrow> bool" where
  "indexed_form s ts ty =
     (\<exists>idx ws rest.
        s = ''['' @ idx @ '']'' @ ws @ ''datezip_'' @ ts @ ''_'' @ ty @ ''.zip'' @ rest
        \<and> idx \<noteq> [] \<and> list_all isdigit idx \<and> ws \<noteq> [] \<and> list_all isspace ws
        \<and> is_timestamp ts \<and> (ty = ''FULL'' \<or> ty = ''INC''))"

definition history_form :: "string \<Rightarrow> string \<Rightarrow> char \<Rightarrow> string \<Rightarrow> bool" where
  "history_form s ts mk file =
     (\<exists>ws1 ws2.
        s = ts @ ws1 @ [mk] @ ws2 @ file
        \<and> is_timestamp ts \<and> ws1 \<noteq> [] \<and> list_all isspace ws1
        \<and> (mk = CHR ''+'' \<or> mk = CHR ''.'')
        \<and> ws2 \<noteq> [] \<and> list_all isspace ws2 \<and> file \<noteq> [])"

section \<open>Sample worlds and commands\<close>

text \<open>
  A world whose only file is outside every temporary directory, and behaviours of the
  external command: exit 0 with no output and no change; exit 1 with a message on standard
  error; exit 0 after restoring the file named after \<open>--files\<close> below the directory named
  after \<open>--dest\<close>; a command that cannot be started; and a command that prints two backups
  after a heading, or three changes and a remark.
\<close>

definition sample_world :: world where
  "sample_world =
     \<lparr>fs = [''/etc/hostname'' \<mapsto> File ''live''],
      tmp_names = [''/etc/hostname'', ''/tmp/tmpk3x9''],
      invocations = []\<rparr>"

definition datezip_quiet :: process where
  "datezip_quiet args f = (Inr (0, [], []), f)"

definition datezip_failing :: process where
  "datezip_failing args f = (Inr (1, [], '' no such backup '' @ [newline]), f)"

definition datezip_restoring :: process where
  "datezip_restoring args f =
     (case args of
        [a, t, b, name, c, dest, d, e] \<Rightarrow>
          (Inr (0, ''restored'' @ [newline], []), f(dest @ ''/'' @ name \<mapsto> File ''old''))
      | _ \<Rightarrow> (Inr (2, [], ''usage''), f))"

definition datezip_missing :: process where
  "datezip_missing args f = (Inl FileNotFoundError, f)"

definition sample_list_output :: string where
  "sample_list_output =
     ''Available backups:'' @ [newline]
     @ ''  [1]  datezip_20240216_143000_FULL.zip'' @ [newline]
     @ ''  [2]  datezip_20240217_090000_INC.zip  9K'' @ [newline]"

definition sample_history_output :: string where
  "sample_history_output =
     ''20240216_143000  +  a.txt'' @ [newline]
     @ ''no changes'' @ [newline]
     @ ''20240217_090000 .  a.txt'' @ [newline]
     @ ''20240217_090000 +  my notes.txt'' @ [newline]"

definition datezip_listing :: process where
  "datezip_listing args f =
     (if args = [''--list''] then (Inr (0, sample_list_output, []), f)
      else (Inr (0, sample_history_output, []), f))"

section \<open>Properties\<close>

subsection \<open>The external command\<close>

lemma run_datezip_invocations:
  "invocations (snd (run_datezip P args w)) = invocations w @ [args]"
  by (simp add: run_datezip_def Let_def split: prod.splits sum.splits)

lemma run_datezip_fs:
  "fs (snd (run_datezip P args w)) = snd (P args (fs w))"
  by (simp add: run_datezip_def Let_def split: prod.splits sum.splits)

lemma run_datezip_fst:
  "fst (run_datezip P args w) =
     (case fst (P args (fs w)) of
        Inl e \<Rightarrow> Inl e
      | Inr (code, out, err) \<Rightarrow> Inr (code, strip out, strip err))"
  by (simp add: run_datezip_def Let_def split: prod.splits sum.splits)

subsection \<open>create_backup\<close>

lemma create_backup_invocations:
  "invocations (snd (create_backup P mode w)) = invocations w @ [create_backup_args mode]"
  using run_datezip_invocations [of P "create_backup_args mode" w]
  by (auto simp: create_backup_def split: prod.splits sum.splits)

lemma create_backup_exit:
  assumes "P (create_backup_args mode) (fs w) = (Inr (code, out, err), f')"
  shows "fst (create_backup P mode w) =
         (if code \<noteq> 0 then Inr (''Backup failed:'' @ [newline] @ py_or (strip err) (strip out))
          else Inr (''Backup successful:'' @ [newline] @ strip out))"
  using assms by (simp add: create_backup_def run_datezip_def)

text \<open>
  C8. \<open>create_backup\<close> starts the command with \<open>--full\<close> for mode \<open>full\<close>, with
  \<open>--inc\<close> for mode \<open>inc\<close> and with no flag for mode \<open>auto\<close>. When the command exits,
  the result is the success message exactly when the return code is zero; otherwise it is
  the failure message, which carries the command's standard error (as \<open>run_datezip\<close>
  stripped it; the standard output when the standard error is empty).
\<close>

theorem create_backup_modes:
  assumes "P (create_backup_args mode) (fs w) = (Inr (code, out, err), f')"
  shows "create_backup_args ''full'' = [''--full'']
       \<and> create_backup_args ''inc'' = [''--inc'']
       \<and> create_backup_args ''auto'' = []
       \<and> invocations (snd (create_backup P mode w)) = invocations w @ [create_backup_args mode]
       \<and> (fst (create_backup P mode w) = Inr (''Backup successful:'' @ [newline] @ strip out)
            \<longleftrightarrow> code = 0)
       \<and> (code \<noteq> 0 \<longrightarrow>
            fst (create_backup P mode w)
              = Inr (''Backup failed:'' @ [newline] @ py_or (strip err) (strip out))
            \<and> suffix (strip err) (''Backup failed:'' @ [newline] @ py_or (strip err) (strip out)))"
proof -
  have flags: "create_backup_args ''full'' = [''--full'']"
    "create_backup_args ''inc'' = [''--inc'']" "create_backup_args ''auto'' = []"
    by (simp_all add: create_backup_args_def)
  have res: "fst (create_backup P mode w) =
         (if code \<noteq> 0 then Inr (''Backup failed:'' @ [newline] @ py_or (strip err) (strip out))
          else Inr (''Backup successful:'' @ [newline] @ strip out))"
    using assms by (rule create_backup_exit [of P mode w code out err f'])
  have suf: "suffix (strip err) (''Backup failed:'' @ [newline] @ py_or (strip err) (strip out))"
    by (cases "strip err = []") (simp_all add: py_or_def suffix_def)
  show ?thesis
    using flags res suf create_backup_invocations [of P mode w] by simp
qed

theorem create_backup_modes_witness:
  "datezip_failing (create_backup_args ''inc'') (fs sample_world)
     = (Inr (1, [], '' no such backup '' @ [newline]), fs sample_world)
   \<and> invocations (snd (create_backup datezip_failing ''inc'' sample_world)) = [[''--inc'']]
   \<and> fst (create_backup datezip_failing ''inc'' sample_world)
       = Inr (''Backup failed:'' @ [newline] @ ''no such backup'')"
proof -
  have h: "datezip_failing (create_backup_args ''inc'') (fs sample_world)
     = (Inr (1, [], '' no such backup '' @ [newline]), fs sample_world)"
    by (simp add: datezip_failing_def)
  note t = create_backup_modes [of datezip_failing "''inc''" sample_world 1 "[]"
        "'' no such backup '' @ [newline]" "fs sample_world", OF h]
  have n: "(1::int) \<noteq> 0" by simp
  have i: "invocations (snd (create_backup datezip_failing ''inc'' sample_world)) = [[''--inc'']]"
    using t by (simp add: sample_world_def)
  have "fst (create_backup datezip_failing ''inc'' sample_world)
          = Inr (''Backup failed:'' @ [newline]
                 @ py_or (strip ('' no such backup '' @ [newline])) (strip []))"
    using t n by blast
  then have r: "fst (create_backup datezip_failing ''inc'' sample_world)
       = Inr (''Backup failed:'' @ [newline] @ ''no such backup'')"
    by (simp add: strip_def isspace_def py_or_def)
  show ?thesis
    by (intro conjI) (fact h, fact i, fact r)
qed

text \<open>
  C9. A mode other than \<open>full\<close> and \<open>inc\<close> is treated as \<open>auto\<close>: the same result, the
  same world, the command started with no flag, and no validation error.
\<close>

theorem create_backup_other_mode:
  assumes "mode \<noteq> ''full''" and "mode \<noteq> ''inc''"
  shows "create_backup P mode w = create_backup P ''auto'' w
       \<and> invocations (snd (create_backup P mode w)) = invocations w @ [[]]"
proof -
  have a: "create_backup_args mode = []" "create_backup_args ''auto'' = []"
    using assms by (simp_all add: create_backup_args_def)
  have "create_backup P mode w = create_backup P ''auto'' w"
    by (simp add: create_backup_def a)
  moreover have "invocations (snd (create_backup P mode w)) = invocations w @ [[]]"
    using create_backup_invocations [of P mode w] by (simp add: a)
  ultimately show ?thesis by simp
qed

theorem create_backup_other_mode_witness:
  "''FULL'' \<noteq> ''full'' \<and> ''FULL'' \<noteq> ''inc''
   \<and> create_backup datezip_quiet ''FULL'' sample_world
       = create_backup datezip_quiet ''auto'' sample_world
   \<and> invocations (snd (create_backup datezip_quiet ''FULL'' sample_world)) = [[]]
   \<and> fst (create_backup datezip_quiet ''FULL'' sample_world)
       = Inr (''Backup successful:'' @ [newline])"
proof -
  have h1: "''FULL'' \<noteq> ''full''" and h2: "''FULL'' \<noteq> ''inc''" by simp_all
  note t = create_backup_other_mode [OF h1 h2, of datezip_quiet sample_world]
  have e: "create_backup datezip_quiet ''FULL'' sample_world
       = create_backup datezip_quiet ''auto'' sample_world"
    using t by (rule conjunct1)
  have i: "invocations (snd (create_backup datezip_quiet ''FULL'' sample_world)) = [[]]"
    using conjunct2 [OF t] by (simp add: sample_world_def)
  have r: "fst (create_backup datezip_quiet ''FULL'' sample_world)
       = Inr (''Backup successful:'' @ [newline])"
    by (simp add: create_backup_def create_backup_args_def run_datezip_def datezip_quiet_def
        strip_def)
  show ?thesis
    by (intro conjI) (fact h1, fact h2, fact e, fact i, fact r)
qed

subsection \<open>restore_state\<close>

lemma restore_state_invocations:
  "invocations (snd (restore_state P timestamp files restore_type w))
     = invocations w @ [restore_state_args timestamp files restore_type]"
  using run_datezip_invocations [of P "restore_state_args timestamp files restore_type" w]
  by (auto simp: restore_state_def split: prod.splits sum.splits)

lemma restore_state_fs:
  "fs (snd (restore_state P timestamp files restore_type w))
     = snd (P (restore_state_args timestamp files restore_type) (fs w))"
  using run_datezip_fs [of P "restore_state_args timestamp files restore_type" w]
  by (auto simp: restore_state_def split: prod.splits sum.splits)

lemma restore_state_fst:
  "fst (restore_state P timestamp files restore_type w) =
     (case fst (P (restore_state_args timestamp files restore_type) (fs w)) of
        Inl e \<Rightarrow> Inl e
      | Inr (code, out, err) \<Rightarrow>
          if code \<noteq> 0
          then Inr (''Restore failed:'' @ [newline] @ py_or (strip err) (strip out))
          else Inr (''Restore successful:'' @ [newline] @ strip out))"
  using run_datezip_fst [of P "restore_state_args timestamp files restore_type" w]
  by (auto simp: restore_state_def split: prod.splits sum.splits)

lemma restore_state_args_eq:
  "restore_state_args timestamp files restore_type
     = [''--restore-time'', timestamp, ''--restore-type'', restore_type]
       @ (case files of
            None \<Rightarrow> []
          | Some [] \<Rightarrow> []
          | Some (f # fs') \<Rightarrow> [''--files'', join_str '','' (f # fs')])"
  by (simp add: restore_state_args_def split: option.splits list.splits)

text \<open>
  C10. \<open>restore_state\<close> starts the command for every \<open>restore_type\<close>, with that
  string unchanged as the value after \<open>--restore-type\<close>; the result is decided by the
  command's outcome alone, so no value is rejected before the command runs.
\<close>

theorem restore_state_forwards_restore_type:
  "invocations (snd (restore_state P timestamp files restore_type w))
     = invocations w @ [restore_state_args timestamp files restore_type]
   \<and> take 4 (restore_state_args timestamp files restore_type)
       = [''--restore-time'', timestamp, ''--restore-type'', restore_type]
   \<and> fst (restore_state P timestamp files restore_type w)
       = (case fst (P (restore_state_args timestamp files restore_type) (fs w)) of
            Inl e \<Rightarrow> Inl e
          | Inr (code, out, err) \<Rightarrow>
              if code \<noteq> 0
              then Inr (''Restore failed:'' @ [newline] @ py_or (strip err) (strip out))
              else Inr (''Restore successful:'' @ [newline] @ strip out))"
  using restore_state_invocations [of P timestamp files restore_type w]
    restore_state_fst [of P timestamp files restore_type w]
  by (simp add: restore_state_args_eq)

theorem restore_state_forwards_restore_type_witness:
  "invocations (snd (restore_state datezip_failing ''20240216_143000'' None ''sideways''
                       sample_world))
     = [[''--restore-time'', ''20240216_143000'', ''--restore-type'', ''sideways'']]
   \<and> fst (restore_state datezip_failing ''20240216_143000'' None ''sideways'' sample_world)
       = Inr (''Restore failed:'' @ [newline] @ ''no such backup'')"
proof -
  note t = restore_state_forwards_restore_type [of datezip_failing "''20240216_143000''" None
      "''sideways''" sample_world]
  have i: "invocations (snd (restore_state datezip_failing ''20240216_143000'' None ''sideways''
                       sample_world))
     = [[''--restore-time'', ''20240216_143000'', ''--restore-type'', ''sideways'']]"
    using t by (simp add: sample_world_def restore_state_args_eq)
  have r: "fst (restore_state datezip_failing ''20240216_143000'' None ''sideways'' sample_world)
       = Inr (''Restore failed:'' @ [newline] @ ''no such backup'')"
    using t by (simp add: datezip_failing_def strip_def isspace_def py_or_def)
  show ?thesis
    by (intro conjI) (fact i, fact r)
qed

text \<open>
  C2, as stated, fails: \<open>restore_state\<close> has no destination parameter and the command is
  started without \<open>--dest\<close>.
\<close>

theorem restore_state_destination_counterexample:
  "invocations (snd (restore_state datezip_quiet ''20240216_143000'' (Some [''src/main.py''])
                       ''e'' sample_world))
     = [[''--restore-time'', ''20240216_143000'', ''--restore-type'', ''e'',
         ''--files'', ''src/main.py'']]
   \<and> ''--dest'' \<notin> set (restore_state_args ''20240216_143000'' (Some [''src/main.py'']) ''e'')"
  by (simp add: restore_state_invocations restore_state_args_eq sample_world_def)

text \<open>
  C2, amended. \<open>restore_state\<close> starts the command once, with the timestamp, the restore
  type and, for a file list that is given and not empty, the relative paths unchanged and
  joined by commas; no destination is passed. The wrapper writes nothing itself: the file
  system after the call is the one the command left.
\<close>

theorem restore_state_request:
  "invocations (snd (restore_state P timestamp files restore_type w))
     = invocations w
       @ [[''--restore-time'', timestamp, ''--restore-type'', restore_type]
          @ (case files of
               None \<Rightarrow> []
             | Some [] \<Rightarrow> []
             | Some (f # fs') \<Rightarrow> [''--files'', join_str '','' (f # fs')])]
   \<and> fs (snd (restore_state P timestamp files restore_type w))
       = snd (P (restore_state_args timestamp files restore_type) (fs w))"
  using restore_state_invocations [of P timestamp files restore_type w]
    restore_state_fs [of P timestamp files restore_type w]
  by (simp add: restore_state_args_eq)

theorem restore_state_request_witness:
  "invocations (snd (restore_state datezip_quiet ''20240216_143000''
                       (Some [''src/main.py'', ''README.md'']) ''j'' sample_world))
     = [[''--restore-time'', ''20240216_143000'', ''--restore-type'', ''j'',
         ''--files'', ''src/main.py,README.md'']]
   \<and> fs (snd (restore_state datezip_quiet ''20240216_143000''
                  (Some [''src/main.py'', ''README.md'']) ''j'' sample_world))
       = fs sample_world"
proof -
  note t = restore_state_request [of datezip_quiet "''20240216_143000''"
      "Some [''src/main.py'', ''README.md'']" "''j''" sample_world]
  have i: "invocations (snd (restore_state datezip_quiet ''20240216_143000''
                       (Some [''src/main.py'', ''README.md'']) ''j'' sample_world))
     = [[''--restore-time'', ''20240216_143000'', ''--restore-type'', ''j'',
         ''--files'', ''src/main.py,README.md'']]"
    using t by (simp add: sample_world_def)
  have f: "fs (snd (restore_state datezip_quiet ''20240216_143000''
                  (Some [''src/main.py'', ''README.md'']) ''j'' sample_world))
       = fs sample_world"
    using t by (simp add: datezip_quiet_def)
  show ?thesis
    by (intro conjI) (fact i, fact f)
qed

subsection \<open>The request of get_history\<close>

lemma get_history_invocations:
  "invocations (snd (get_history P files from_ts to_ts w))
     = invocations w @ [get_history_args files from_ts to_ts]"
  using run_datezip_invocations [of P "get_history_args files from_ts to_ts" w]
  by (auto simp: get_history_def split: prod.splits sum.splits)

lemma get_history_args_eq:
  "get_history_args files from_ts to_ts
     = [''--history'']
       @ (case files of
            None \<Rightarrow> []
          | Some [] \<Rightarrow> []
          | Some (f # fs') \<Rightarrow> [''--files'', join_str '','' (f # fs')])
       @ (case from_ts of None \<Rightarrow> [] | Some [] \<Rightarrow> [] | Some (c # cs) \<Rightarrow> [''--from'', c # cs])
       @ (case to_ts of None \<Rightarrow> [] | Some [] \<Rightarrow> [] | Some (c # cs) \<Rightarrow> [''--to'', c # cs])"
  by (simp add: get_history_args_def split: option.splits list.splits)

text \<open>
  C3, as stated, fails at \<open>files = []\<close>: the guard \<open>if files:\<close> is false for the empty list,
  no \<open>--files\<close> is passed and the history is not restricted.
\<close>

theorem get_history_empty_files_counterexample:
  "invocations (snd (get_history datezip_quiet (Some []) None None sample_world))
     = [[''--history'']]
   \<and> ''--files'' \<notin> set (get_history_args (Some []) None None)"
  by (simp add: get_history_invocations get_history_args_eq sample_world_def)

text \<open>
  C3, amended. \<open>get_history\<close> starts the command with \<open>--history\<close>; with \<open>--files\<close> and
  the paths joined by commas when \<open>files\<close> is given and not empty; with \<open>--from\<close> and
  \<open>--to\<close> when the bound is given and not empty. An omitted or empty argument passes no
  flag.
\<close>

theorem get_history_request:
  "invocations (snd (get_history P files from_ts to_ts w))
     = invocations w
       @ [[''--history'']
          @ (case files of
               None \<Rightarrow> []
             | Some [] \<Rightarrow> []
             | Some (f # fs') \<Rightarrow> [''--files'', join_str '','' (f # fs')])
          @ (case from_ts of None \<Rightarrow> [] | Some [] \<Rightarrow> [] | Some (c # cs) \<Rightarrow> [''--from'', c # cs])
          @ (case to_ts of None \<Rightarrow> [] | Some [] \<Rightarrow> [] | Some (c # cs) \<Rightarrow> [''--to'', c # cs])]"
  using get_history_invocations [of P files from_ts to_ts w]
  by (simp add: get_history_args_eq)

theorem get_history_request_witness:
  "invocations (snd (get_history datezip_quiet (Some [''src/main.py'', ''README.md''])
                       (Some ''20240216_000000'') (Some []) sample_world))
     = [[''--history'', ''--files'', ''src/main.py,README.md'', ''--from'', ''20240216_000000'']]"
  using get_history_request [of datezip_quiet "Some [''src/main.py'', ''README.md'']"
      "Some ''20240216_000000''" "Some []" sample_world]
  by (simp add: sample_world_def)

subsection \<open>Failure and success of the two listings\<close>

lemma list_backups_exit:
  assumes "P [''--list''] (fs w) = (Inr (code, out, err), f1)"
  shows "fst (list_backups P w) =
         (if code \<noteq> 0 then Inl (RuntimeError (''Failed to list backups: '' @ strip err))
          else Inr (list_backups_loop (splitlines (strip out)) []))"
  using assms by (simp add: list_backups_def run_datezip_def)

lemma get_history_exit:
  assumes "P (get_history_args files from_ts to_ts) (fs w) = (Inr (code, out, err), f2)"
  shows "fst (get_history P files from_ts to_ts w) =
         (if code \<noteq> 0 then Inl (RuntimeError (''Failed to get history: '' @ strip err))
          else Inr (get_history_loop (splitlines (strip out)) []))"
  using assms by (simp add: get_history_def run_datezip_def)

text \<open>
  C5. When the command exits, \<open>list_backups\<close> and \<open>get_history\<close> raise exactly when the
  return code is not zero, a \<open>RuntimeError\<close> carrying the command's standard error; with
  return code zero they return the parsed list, which may be empty.
\<close>

theorem listing_fails_iff_nonzero_exit:
  assumes "P [''--list''] (fs w) = (Inr (code, out, err), f1)"
    and "P (get_history_args files from_ts to_ts) (fs w) = (Inr (code', out', err'), f2)"
  shows "(isl (fst (list_backups P w)) \<longleftrightarrow> code \<noteq> 0)
       \<and> (code \<noteq> 0 \<longrightarrow>
            fst (list_backups P w)
              = Inl (RuntimeError (''Failed to list backups: '' @ strip err)))
       \<and> (code = 0 \<longrightarrow>
            fst (list_backups P w) = Inr (list_backups_loop (splitlines (strip out)) []))
       \<and> (isl (fst (get_history P files from_ts to_ts w)) \<longleftrightarrow> code' \<noteq> 0)
       \<and> (code' \<noteq> 0 \<longrightarrow>
            fst (get_history P files from_ts to_ts w)
              = Inl (RuntimeError (''Failed to get history: '' @ strip err')))
       \<and> (code' = 0 \<longrightarrow>
            fst (get_history P files from_ts to_ts w)
              = Inr (get_history_loop (splitlines (strip out')) []))"
  using list_backups_exit [of P w code out err f1, OF assms(1)]
    get_history_exit [of P files from_ts to_ts w code' out' err' f2, OF assms(2)]
  by simp

theorem listing_fails_iff_nonzero_exit_witness:
  "datezip_quiet [''--list''] (fs sample_world) = (Inr (0, [], []), fs sample_world)
   \<and> datezip_quiet (get_history_args None None None) (fs sample_world)
       = (Inr (0, [], []), fs sample_world)
   \<and> fst (list_backups datezip_quiet sample_world) = Inr []
   \<and> fst (get_history datezip_quiet None None None sample_world) = Inr []
   \<and> datezip_failing [''--list''] (fs sample_world)
       = (Inr (1, [], '' no such backup '' @ [newline]), fs sample_world)
   \<and> datezip_failing (get_history_args None None None) (fs sample_world)
       = (Inr (1, [], '' no such backup '' @ [newline]), fs sample_world)
   \<and> fst (list_backups datezip_failing sample_world)
       = Inl (RuntimeError ''Failed to list backups: no such backup'')
   \<and> fst (get_history datezip_failing None None None sample_world)
       = Inl (RuntimeError ''Failed to get history: no such backup'')"
proof -
  have q1: "datezip_quiet [''--list''] (fs sample_world) = (Inr (0, [], []), fs sample_world)"
    and q2: "datezip_quiet (get_history_args None None None) (fs sample_world)
       = (Inr (0, [], []), fs sample_world)"
    by (simp_all add: datezip_quiet_def)
  have f1: "datezip_failing [''--list''] (fs sample_world)
       = (Inr (1, [], '' no such backup '' @ [newline]), fs sample_world)"
    and f2: "datezip_failing (get_history_args None None None) (fs sample_world)
       = (Inr (1, [], '' no such backup '' @ [newline]), fs sample_world)"
    by (simp_all add: datezip_failing_def)
  note tq = listing_fails_iff_nonzero_exit [of datezip_quiet sample_world 0 "[]" "[]"
      "fs sample_world" None None None 0 "[]" "[]" "fs sample_world", OF q1 q2]
  note tf = listing_fails_iff_nonzero_exit [of datezip_failing sample_world 1 "[]"
      "'' no such backup '' @ [newline]" "fs sample_world" None None None 1 "[]"
      "'' no such backup '' @ [newline]" "fs sample_world", OF f1 f2]
  have r1: "fst (list_backups datezip_quiet sample_world) = Inr []"
    and r2: "fst (get_history datezip_quiet None None None sample_world) = Inr []"
    using tq by (simp_all add: strip_def splitlines_def)
  have r3: "fst (list_backups datezip_failing sample_world)
       = Inl (RuntimeError ''Failed to list backups: no such backup'')"
    and r4: "fst (get_history datezip_failing None None None sample_world)
       = Inl (RuntimeError ''Failed to get history: no such backup'')"
    using tf by (simp_all add: strip_def isspace_def)
  show ?thesis
    by (intro conjI) (fact q1, fact q2, fact r1, fact r2, fact f1, fact f2, fact r3, fact r4)
qed

subsection \<open>The temporary directory of get_historical_content\<close>

lemma mkdtemp_pick_fresh:
  "mkdtemp_pick ns f = Some (d, rest) \<Longrightarrow> f d = None \<and> d \<in> set ns"
  by (induction ns) (auto split: if_splits)

lemma mkdtemp_created:
  assumes "mkdtemp w = (Inr d, w1)"
  shows "fs w d = None" and "fs w1 = (fs w)(d \<mapsto> Dir)" and "invocations w1 = invocations w"
    and "d \<in> set (tmp_names w)"
  using assms mkdtemp_pick_fresh [of "tmp_names w" "fs w" d]
  by (auto simp: mkdtemp_def split: option.splits prod.splits)

lemma try_invocations:
  "invocations (snd (get_historical_content_try P timestamp filename tmp_dir w))
     = invocations w @ [[''--restore-time'', timestamp, ''--files'', filename,
                         ''--dest'', tmp_dir, ''--restore-type'', ''e'']]"
  using run_datezip_invocations [of P "[''--restore-time'', timestamp, ''--files'', filename,
                         ''--dest'', tmp_dir, ''--restore-type'', ''e'']" w]
  by (auto simp: get_historical_content_try_def Let_def split: prod.splits sum.splits)

lemma try_fs:
  "fs (snd (get_historical_content_try P timestamp filename tmp_dir w))
     = snd (P [''--restore-time'', timestamp, ''--files'', filename,
               ''--dest'', tmp_dir, ''--restore-type'', ''e''] (fs w))"
  using run_datezip_fs [of P "[''--restore-time'', timestamp, ''--files'', filename,
                         ''--dest'', tmp_dir, ''--restore-type'', ''e'']" w]
  by (auto simp: get_historical_content_try_def Let_def split: prod.splits sum.splits)

lemma rmtree_invocations: "invocations (snd (rmtree d w)) = invocations w"
  by (simp add: rmtree_def split: option.splits node.splits)

lemma rmtree_gone: "fs (snd (rmtree d w)) d \<noteq> Some Dir"
  by (simp add: rmtree_def below_def split: option.splits node.splits)

lemma rmtree_below:
  "fs w d = Some Dir \<Longrightarrow> below d p \<Longrightarrow> fs (snd (rmtree d w)) p = None"
  by (simp add: rmtree_def)

lemma get_historical_content_snd:
  assumes "mkdtemp w = (Inr tmp_dir, w1)"
  shows "snd (get_historical_content P timestamp filename w)
           = snd (rmtree tmp_dir (snd (get_historical_content_try P timestamp filename tmp_dir w1)))"
  using assms by (simp add: get_historical_content_def split: prod.splits sum.splits)

text \<open>
  C1. When \<open>mkdtemp\<close> returns a directory, nothing existed at that path before the call
  and the directory exists when the command starts; \<open>get_historical_content\<close> starts the
  restore command once, with that directory after \<open>--dest\<close>; and after the call, whatever the command did and however the body of the
  \<open>try\<close> block ended (content returned, error message for a failed command, error message
  for a missing file, exception), the directory is gone. When the command left it a
  directory, nothing at or below it remains.
\<close>

theorem get_historical_content_scratch_directory:
  assumes "mkdtemp w = (Inr tmp_dir, w1)"
  shows "fs w tmp_dir = None
       \<and> fs w1 tmp_dir = Some Dir
       \<and> invocations (snd (get_historical_content P timestamp filename w))
           = invocations w @ [[''--restore-time'', timestamp, ''--files'', filename,
                               ''--dest'', tmp_dir, ''--restore-type'', ''e'']]
       \<and> fs (snd (get_historical_content P timestamp filename w)) tmp_dir \<noteq> Some Dir
       \<and> (snd (P [''--restore-time'', timestamp, ''--files'', filename,
                   ''--dest'', tmp_dir, ''--restore-type'', ''e''] (fs w1)) tmp_dir = Some Dir
            \<longrightarrow> (\<forall>p. below tmp_dir p
                   \<longrightarrow> fs (snd (get_historical_content P timestamp filename w)) p = None))"
proof -
  let ?args = "[''--restore-time'', timestamp, ''--files'', filename,
                ''--dest'', tmp_dir, ''--restore-type'', ''e'']"
  let ?w2 = "snd (get_historical_content_try P timestamp filename tmp_dir w1)"
  have s: "snd (get_historical_content P timestamp filename w) = snd (rmtree tmp_dir ?w2)"
    by (rule get_historical_content_snd [OF assms])
  have fresh: "fs w tmp_dir = None"
    by (rule mkdtemp_created(1) [OF assms])
  have created: "fs w1 tmp_dir = Some Dir"
    by (simp add: mkdtemp_created(2) [OF assms])
  have inv: "invocations (snd (get_historical_content P timestamp filename w))
           = invocations w @ [?args]"
    by (simp add: s rmtree_invocations try_invocations mkdtemp_created(3) [OF assms])
  have gone: "fs (snd (get_historical_content P timestamp filename w)) tmp_dir \<noteq> Some Dir"
    by (simp add: s rmtree_gone)
  have all: "fs (snd (get_historical_content P timestamp filename w)) p = None"
    if "snd (P ?args (fs w1)) tmp_dir = Some Dir" and "below tmp_dir p" for p
  proof -
    have "fs ?w2 tmp_dir = Some Dir"
      using that(1) by (simp add: try_fs)
    then show ?thesis
      using that(2) by (simp add: s rmtree_below)
  qed
  show ?thesis
    using fresh created inv gone all by blast
qed

lemma sample_mkdtemp:
  "mkdtemp sample_world
     = (Inr ''/tmp/tmpk3x9'',
        sample_world\<lparr>fs := (fs sample_world)(''/tmp/tmpk3x9'' \<mapsto> Dir), tmp_names := []\<rparr>)"
  by (simp add: mkdtemp_def sample_world_def)

theorem get_historical_content_scratch_directory_witness:
  "mkdtemp sample_world
     = (Inr ''/tmp/tmpk3x9'',
        sample_world\<lparr>fs := (fs sample_world)(''/tmp/tmpk3x9'' \<mapsto> Dir), tmp_names := []\<rparr>)
   \<and> fs sample_world ''/tmp/tmpk3x9'' = None
   \<and> invocations (snd (get_historical_content datezip_restoring ''20240216_143000''
                          ''src/main.py'' sample_world))
       = [[''--restore-time'', ''20240216_143000'', ''--files'', ''src/main.py'',
           ''--dest'', ''/tmp/tmpk3x9'', ''--restore-type'', ''e'']]
   \<and> fst (get_historical_content datezip_restoring ''20240216_143000'' ''src/main.py''
              sample_world) = Inr ''old''
   \<and> fs (snd (get_historical_content datezip_restoring ''20240216_143000'' ''src/main.py''
                  sample_world)) ''/tmp/tmpk3x9'' = None
   \<and> fs (snd (get_historical_content datezip_restoring ''20240216_143000'' ''src/main.py''
                  sample_world)) ''/tmp/tmpk3x9/src/main.py'' = None
   \<and> fst (get_historical_content datezip_failing ''20240216_143000'' ''src/main.py''
              sample_world)
       = Inr ''Error retrieving historical content: no such backup''
   \<and> fs (snd (get_historical_content datezip_failing ''20240216_143000'' ''src/main.py''
                  sample_world)) ''/tmp/tmpk3x9'' = None
   \<and> fst (get_historical_content datezip_quiet ''20240216_143000'' ''src/main.py''
              sample_world)
       = Inr (''Error: File '' @ [quote] @ ''src/main.py'' @ [quote]
              @ '' not found in archive at timestamp 20240216_143000.'')
   \<and> fs (snd (get_historical_content datezip_quiet ''20240216_143000'' ''src/main.py''
                  sample_world)) ''/tmp/tmpk3x9'' = None
   \<and> fst (get_historical_content datezip_missing ''20240216_143000'' ''src/main.py''
              sample_world) = Inl FileNotFoundError
   \<and> fs (snd (get_historical_content datezip_missing ''20240216_143000'' ''src/main.py''
                  sample_world)) ''/tmp/tmpk3x9'' = None"
proof -
  let ?w1 = "sample_world\<lparr>fs := (fs sample_world)(''/tmp/tmpk3x9'' \<mapsto> Dir), tmp_names := []\<rparr>"
  let ?args = "[''--restore-time'', ''20240216_143000'', ''--files'', ''src/main.py'',
                ''--dest'', ''/tmp/tmpk3x9'', ''--restore-type'', ''e'']"
  note m = sample_mkdtemp
  have b1: "below ''/tmp/tmpk3x9'' ''/tmp/tmpk3x9''"
    and b2: "below ''/tmp/tmpk3x9'' ''/tmp/tmpk3x9/src/main.py''"
    by (simp_all add: below_def)
  have k1: "snd (datezip_restoring ?args (fs ?w1)) ''/tmp/tmpk3x9'' = Some Dir"
    and k2: "snd (datezip_failing ?args (fs ?w1)) ''/tmp/tmpk3x9'' = Some Dir"
    and k3: "snd (datezip_quiet ?args (fs ?w1)) ''/tmp/tmpk3x9'' = Some Dir"
    and k4: "snd (datezip_missing ?args (fs ?w1)) ''/tmp/tmpk3x9'' = Some Dir"
    by (simp_all add: datezip_restoring_def datezip_failing_def datezip_quiet_def
        datezip_missing_def)
  note t1 = get_historical_content_scratch_directory [OF m, of datezip_restoring
      "''20240216_143000''" "''src/main.py''"]
  note t2 = get_historical_content_scratch_directory [OF m, of datezip_failing
      "''20240216_143000''" "''src/main.py''"]
  note t3 = get_historical_content_scratch_directory [OF m, of datezip_quiet
      "''20240216_143000''" "''src/main.py''"]
  note t4 = get_historical_content_scratch_directory [OF m, of datezip_missing
      "''20240216_143000''" "''src/main.py''"]
  have fresh: "fs sample_world ''/tmp/tmpk3x9'' = None"
    using t1 by blast
  have inv: "invocations (snd (get_historical_content datezip_restoring ''20240216_143000''
                          ''src/main.py'' sample_world)) = [?args]"
    using t1 by (simp add: sample_world_def)
  have g1: "fs (snd (get_historical_content datezip_restoring ''20240216_143000''
                  ''src/main.py'' sample_world)) ''/tmp/tmpk3x9'' = None"
    using t1 k1 b1 by blast
  have g1': "fs (snd (get_historical_content datezip_restoring ''20240216_143000''
                  ''src/main.py'' sample_world)) ''/tmp/tmpk3x9/src/main.py'' = None"
    using t1 k1 b2 by blast
  have g2: "fs (snd (get_historical_content datezip_failing ''20240216_143000''
                  ''src/main.py'' sample_world)) ''/tmp/tmpk3x9'' = None"
    using t2 k2 b1 by blast
  have g3: "fs (snd (get_historical_content datezip_quiet ''20240216_143000''
                  ''src/main.py'' sample_world)) ''/tmp/tmpk3x9'' = None"
    using t3 k3 b1 by blast
  have g4: "fs (snd (get_historical_content datezip_missing ''20240216_143000''
                  ''src/main.py'' sample_world)) ''/tmp/tmpk3x9'' = None"
    using t4 k4 b1 by blast
  have r1: "fst (get_historical_content datezip_restoring ''20240216_143000'' ''src/main.py''
              sample_world) = Inr ''old''"
    by (simp add: get_historical_content_def m get_historical_content_try_def run_datezip_def
        datezip_restoring_def rmtree_def path_join_def path_exists_def read_text_def
        suffix_to_prefix Let_def strip_def isspace_def)
  have r2: "fst (get_historical_content datezip_failing ''20240216_143000'' ''src/main.py''
              sample_world)
       = Inr ''Error retrieving historical content: no such backup''"
    by (simp add: get_historical_content_def m get_historical_content_try_def run_datezip_def
        datezip_failing_def rmtree_def strip_def isspace_def py_or_def Let_def)
  have r3: "fst (get_historical_content datezip_quiet ''20240216_143000'' ''src/main.py''
              sample_world)
       = Inr (''Error: File '' @ [quote] @ ''src/main.py'' @ [quote]
              @ '' not found in archive at timestamp 20240216_143000.'')"
    apply (simp add: get_historical_content_def m)
    apply (simp add: get_historical_content_try_def run_datezip_def datezip_quiet_def
        rmtree_def path_join_def path_exists_def sample_world_def suffix_to_prefix Let_def
        strip_def)
    done
  have r4: "fst (get_historical_content datezip_missing ''20240216_143000'' ''src/main.py''
              sample_world) = Inl FileNotFoundError"
    by (simp add: get_historical_content_def m get_historical_content_try_def run_datezip_def
        datezip_missing_def rmtree_def Let_def)
  show ?thesis
    by (intro conjI)
       (fact m, fact fresh, fact inv, fact r1, fact g1, fact g1', fact r2, fact g2,
        fact r3, fact g3, fact r4, fact g4)
qed

text \<open>
  C4, where the code departs from it. For an absolute \<open>filename\<close>, \<open>os.path.join\<close> discards
  the temporary directory, so the existence test and the read are made on the live path.
  Here the command exits 0 and restores nothing, the requested file is absent from the
  temporary directory, and the call returns the content of the live file instead of the
  error message.
\<close>

theorem get_historical_content_absolute_filename:
  "path_join ''/tmp/tmpk3x9'' ''/etc/hostname'' = ''/etc/hostname''
   \<and> invocations (snd (get_historical_content datezip_quiet ''20240216_143000''
                          ''/etc/hostname'' sample_world))
       = [[''--restore-time'', ''20240216_143000'', ''--files'', ''/etc/hostname'',
           ''--dest'', ''/tmp/tmpk3x9'', ''--restore-type'', ''e'']]
   \<and> datezip_quiet [''--restore-time'', ''20240216_143000'', ''--files'', ''/etc/hostname'',
                      ''--dest'', ''/tmp/tmpk3x9'', ''--restore-type'', ''e'']
         ((fs sample_world)(''/tmp/tmpk3x9'' \<mapsto> Dir))
       = (Inr (0, [], []), (fs sample_world)(''/tmp/tmpk3x9'' \<mapsto> Dir))
   \<and> fs sample_world ''/etc/hostname'' = Some (File ''live'')
   \<and> fst (get_historical_content datezip_quiet ''20240216_143000'' ''/etc/hostname''
              sample_world) = Inr ''live''"
proof -
  have j: "path_join ''/tmp/tmpk3x9'' ''/etc/hostname'' = ''/etc/hostname''"
    by (simp add: path_join_def)
  have i: "invocations (snd (get_historical_content datezip_quiet ''20240216_143000''
                          ''/etc/hostname'' sample_world))
       = [[''--restore-time'', ''20240216_143000'', ''--files'', ''/etc/hostname'',
           ''--dest'', ''/tmp/tmpk3x9'', ''--restore-type'', ''e'']]"
  proof -
    have "invocations (snd (get_historical_content datezip_quiet ''20240216_143000''
                          ''/etc/hostname'' sample_world))
       = invocations sample_world
         @ [[''--restore-time'', ''20240216_143000'', ''--files'', ''/etc/hostname'',
             ''--dest'', ''/tmp/tmpk3x9'', ''--restore-type'', ''e'']]"
      by (simp add: get_historical_content_snd [OF sample_mkdtemp] rmtree_invocations
          try_invocations)
    then show ?thesis by (simp add: sample_world_def)
  qed
  have q: "datezip_quiet [''--restore-time'', ''20240216_143000'', ''--files'', ''/etc/hostname'',
                      ''--dest'', ''/tmp/tmpk3x9'', ''--restore-type'', ''e'']
         ((fs sample_world)(''/tmp/tmpk3x9'' \<mapsto> Dir))
       = (Inr (0, [], []), (fs sample_world)(''/tmp/tmpk3x9'' \<mapsto> Dir))"
    by (simp add: datezip_quiet_def)
  have l: "fs sample_world ''/etc/hostname'' = Some (File ''live'')"
    by (simp add: sample_world_def)
  have r: "fst (get_historical_content datezip_quiet ''20240216_143000'' ''/etc/hostname''
              sample_world) = Inr ''live''"
    apply (simp add: get_historical_content_def sample_mkdtemp)
    apply (simp add: get_historical_content_try_def run_datezip_def datezip_quiet_def
        rmtree_def path_join_def path_exists_def read_text_def sample_world_def strip_def
        Let_def)
    done
  show ?thesis
    by (intro conjI) (fact j, fact i, fact q, fact l, fact r)
qed

text \<open>
  For a \<open>filename\<close> that \<open>os.path.join\<close> places at a path where nothing exists after a
  successful command, the error message naming the file and the timestamp is returned.
\<close>

lemma get_historical_content_not_found:
  assumes "mkdtemp w = (Inr tmp_dir, w1)"
    and "P [''--restore-time'', timestamp, ''--files'', filename,
            ''--dest'', tmp_dir, ''--restore-type'', ''e''] (fs w1) = (Inr (0, out, err), f')"
    and "f' tmp_dir = Some Dir"
    and "f' (path_join tmp_dir filename) = None"
  shows "fst (get_historical_content P timestamp filename w)
           = Inr (''Error: File '' @ [quote] @ filename @ [quote]
                  @ '' not found in archive at timestamp '' @ timestamp @ ''.'')"
  using assms
  by (simp add: get_historical_content_def get_historical_content_try_def run_datezip_def
      rmtree_def path_exists_def Let_def strip_def)

subsection \<open>What the matcher accepts\<close>

lemma in_ms_Lit: "(s', c') \<in> set (ms (Lit l) s c) \<longleftrightarrow> s = l @ s' \<and> c' = c"
  by (auto simp: prefix_def)

lemma in_ms_Cls: "(s', c') \<in> set (ms (Cls C) s c) \<longleftrightarrow> (\<exists>x. s = x # s' \<and> C x) \<and> c' = c"
  by (cases s) auto

lemma in_ms_Rep:
  "(s', c') \<in> set (ms (Rep n C) s c)
     \<longleftrightarrow> (\<exists>u. s = u @ s' \<and> length u = n \<and> list_all C u) \<and> c' = c"
proof
  assume "(s', c') \<in> set (ms (Rep n C) s c)"
  then have "n \<le> length s" "list_all C (take n s)" "s' = drop n s" "c' = c"
    by (auto split: if_splits)
  then have "s = take n s @ s' \<and> length (take n s) = n \<and> list_all C (take n s)"
    by simp
  with \<open>c' = c\<close> show "(\<exists>u. s = u @ s' \<and> length u = n \<and> list_all C u) \<and> c' = c"
    by blast
next
  assume "(\<exists>u. s = u @ s' \<and> length u = n \<and> list_all C u) \<and> c' = c"
  then show "(s', c') \<in> set (ms (Rep n C) s c)"
    by auto
qed

lemma set_ms_Plus:
  "set (ms (Plus C) s c)
     = (\<lambda>k. (drop k s, c)) ` {k. 1 \<le> k \<and> k \<le> length (takeWhile C s)}"
  by (auto simp del: upt_Suc)

lemma in_ms_Plus:
  "(s', c') \<in> set (ms (Plus C) s c)
     \<longleftrightarrow> (\<exists>u. s = u @ s' \<and> u \<noteq> [] \<and> list_all C u) \<and> c' = c"
proof
  assume "(s', c') \<in> set (ms (Plus C) s c)"
  then obtain k where k: "1 \<le> k" "k \<le> length (takeWhile C s)" "s' = drop k s" "c' = c"
    unfolding set_ms_Plus by auto
  have "take k s = take k (takeWhile C s)"
    using k(2) by (metis takeWhile_dropWhile_id take_append diff_is_0_eq take_0 append_Nil2)
  then have "list_all C (take k s)"
    by (metis in_set_takeD list_all_iff set_takeWhileD)
  moreover have "take k s \<noteq> []"
    using k(1,2) length_takeWhile_le [of C s] by (auto simp: take_eq_Nil)
  ultimately have "s = take k s @ s' \<and> take k s \<noteq> [] \<and> list_all C (take k s)"
    using k(3) by simp
  with k(4) show "(\<exists>u. s = u @ s' \<and> u \<noteq> [] \<and> list_all C u) \<and> c' = c"
    by blast
next
  assume "(\<exists>u. s = u @ s' \<and> u \<noteq> [] \<and> list_all C u) \<and> c' = c"
  then obtain u where u: "s = u @ s'" "u \<noteq> []" "list_all C u" "c' = c"
    by blast
  have "takeWhile C s = u @ takeWhile C s'"
    using u(1,3) by (simp add: list_all_iff)
  then have "length u \<le> length (takeWhile C s)" by simp
  moreover have "1 \<le> length u" using u(2) by (cases u) auto
  moreover have "drop (length u) s = s'" using u(1) by simp
  ultimately have "(s', c) \<in> (\<lambda>k. (drop k s, c)) ` {k. 1 \<le> k \<and> k \<le> length (takeWhile C s)}"
    by (auto simp: image_iff intro!: exI [of _ "length u"])
  then show "(s', c') \<in> set (ms (Plus C) s c)"
    using u(4) unfolding set_ms_Plus by simp
qed

lemma in_ms_Seq:
  "(s', c') \<in> set (ms (Seq a b) s c)
     \<longleftrightarrow> (\<exists>s1 c1. (s1, c1) \<in> set (ms a s c) \<and> (s', c') \<in> set (ms b s1 c1))"
  by auto

lemma in_ms_Alt:
  "(s', c') \<in> set (ms (Alt a b) s c)
     \<longleftrightarrow> (s', c') \<in> set (ms a s c) \<or> (s', c') \<in> set (ms b s c)"
  by auto

lemma in_ms_Grp:
  "(s', c') \<in> set (ms (Grp n r) s c)
     \<longleftrightarrow> (\<exists>c1. (s', c1) \<in> set (ms r s c) \<and> c' = c1(n \<mapsto> take (length s - length s') s))"
  by auto

lemma in_ms_Eol:
  "(s', c') \<in> set (ms Eol s c) \<longleftrightarrow> s' = s \<and> c' = c \<and> (s = [] \<or> s = [newline])"
  by auto

lemma is_timestamp_parts:
  "is_timestamp ts \<longleftrightarrow>
     (\<exists>u v. ts = u @ ''_'' @ v \<and> length u = 8 \<and> list_all isdigit u
            \<and> length v = 6 \<and> list_all isdigit v)"
proof
  assume a: "is_timestamp ts"
  then have l: "length ts = 15" by (simp add: is_timestamp_def)
  then have "ts = take 8 ts @ ts ! 8 # drop (Suc 8) ts"
    by (intro id_take_nth_drop) simp
  then have "ts = take 8 ts @ ''_'' @ drop 9 ts"
    using a by (simp add: is_timestamp_def)
  moreover have "length (take 8 ts) = 8" "length (drop 9 ts) = 6"
    using l by simp_all
  ultimately show "\<exists>u v. ts = u @ ''_'' @ v \<and> length u = 8 \<and> list_all isdigit u
            \<and> length v = 6 \<and> list_all isdigit v"
    using a unfolding is_timestamp_def by blast
next
  assume "\<exists>u v. ts = u @ ''_'' @ v \<and> length u = 8 \<and> list_all isdigit u
            \<and> length v = 6 \<and> list_all isdigit v"
  then show "is_timestamp ts"
    by (auto simp: is_timestamp_def nth_append)
qed

lemma in_ms_timestamp:
  "(s', c') \<in> set (ms timestamp_re s c)
     \<longleftrightarrow> (\<exists>ts. s = ts @ s' \<and> is_timestamp ts) \<and> c' = c"
proof
  assume "(s', c') \<in> set (ms timestamp_re s c)"
  then obtain u v where "s = u @ ''_'' @ v @ s'" "length u = 8" "list_all isdigit u"
    "length v = 6" "list_all isdigit v" "c' = c"
    unfolding timestamp_re_def in_ms_Seq in_ms_Rep in_ms_Lit by auto
  then have "s = (u @ ''_'' @ v) @ s' \<and> is_timestamp (u @ ''_'' @ v)" "c' = c"
    unfolding is_timestamp_parts by auto
  then show "(\<exists>ts. s = ts @ s' \<and> is_timestamp ts) \<and> c' = c"
    by blast
next
  assume "(\<exists>ts. s = ts @ s' \<and> is_timestamp ts) \<and> c' = c"
  then obtain u v where uv: "s = u @ ''_'' @ v @ s'" "length u = 8" "list_all isdigit u"
    "length v = 6" "list_all isdigit v" "c' = c"
    unfolding is_timestamp_parts by auto
  have 1: "(''_'' @ v @ s', c) \<in> set (ms (Rep 8 isdigit) s c)"
    unfolding in_ms_Rep using uv by blast
  have 2: "(v @ s', c) \<in> set (ms (Lit ''_'') (''_'' @ v @ s') c)"
    unfolding in_ms_Lit by simp
  have 3: "(s', c) \<in> set (ms (Rep 6 isdigit) (v @ s') c)"
    unfolding in_ms_Rep using uv by blast
  show "(s', c') \<in> set (ms timestamp_re s c)"
    unfolding timestamp_re_def in_ms_Seq using 1 2 3 uv(6) by blast
qed

lemma match_re_SomeD:
  "match_re r s = Some m \<Longrightarrow> \<exists>s'. (s', m) \<in> set (ms r s Map.empty)"
  by (auto simp: match_re_def split: list.splits)

lemma in_ms_Grp_timestamp:
  "(s', c') \<in> set (ms (Grp n timestamp_re) s c)
     \<longleftrightarrow> (\<exists>ts. s = ts @ s' \<and> is_timestamp ts \<and> c' = c(n \<mapsto> ts))"
  unfolding in_ms_Grp in_ms_timestamp by auto

lemma in_ms_type:
  "(s', c') \<in> set (ms (Grp 3 (Alt (Lit ''FULL'') (Lit ''INC''))) s c)
     \<longleftrightarrow> (\<exists>ty. s = ty @ s' \<and> (ty = ''FULL'' \<or> ty = ''INC'') \<and> c' = c(3 \<mapsto> ty))"
  unfolding in_ms_Grp in_ms_Alt in_ms_Lit by auto

lemma take_matched: "s = u @ s' \<Longrightarrow> take (length s - length s') s = u"
  by simp

lemma list_pattern_sound:
  assumes "(s', m) \<in> set (ms list_pattern s c)"
  shows "\<exists>ts ty. indexed_form s ts ty
           \<and> m = c(2 \<mapsto> ts, 3 \<mapsto> ty, 1 \<mapsto> ''datezip_'' @ ts @ ''_'' @ ty @ ''.zip'')"
proof -
  let ?F = "Seq (Lit ''datezip_'')
          (Seq (Grp 2 timestamp_re)
          (Seq (Lit ''_'')
          (Seq (Grp 3 (Alt (Lit ''FULL'') (Lit ''INC'')))
               (Lit ''.zip''))))"
  from assms obtain idx ws s4 where
    o: "s = ''['' @ idx @ '']'' @ ws @ s4" "idx \<noteq> []" "list_all isdigit idx"
       "ws \<noteq> []" "list_all isspace ws" "(s', m) \<in> set (ms (Grp 1 ?F) s4 c)"
    unfolding list_pattern_def in_ms_Seq in_ms_Plus in_ms_Lit by blast
  from o(6) obtain c5 where
    g: "(s', c5) \<in> set (ms ?F s4 c)" "m = c5(1 \<mapsto> take (length s4 - length s') s4)"
    unfolding in_ms_Grp by blast
  from g(1) obtain ts ty where
    f: "s4 = ''datezip_'' @ ts @ ''_'' @ ty @ ''.zip'' @ s'" "is_timestamp ts"
       "ty = ''FULL'' \<or> ty = ''INC''" "c5 = c(2 \<mapsto> ts, 3 \<mapsto> ty)"
    unfolding in_ms_Seq in_ms_Lit in_ms_Grp_timestamp in_ms_type by blast
  have t: "take (length s4 - length s') s4 = ''datezip_'' @ ts @ ''_'' @ ty @ ''.zip''"
    using take_matched [of s4 "''datezip_'' @ ts @ ''_'' @ ty @ ''.zip''" s'] f(1) by simp
  have "indexed_form s ts ty"
    unfolding indexed_form_def using o(1-5) f(1-3) by blast
  moreover have "m = c(2 \<mapsto> ts, 3 \<mapsto> ty, 1 \<mapsto> ''datezip_'' @ ts @ ''_'' @ ty @ ''.zip'')"
    unfolding g(2) t f(4) ..
  ultimately show ?thesis by blast
qed

lemma history_pattern_sound:
  assumes "(s', m) \<in> set (ms history_pattern s c)" and "newline \<notin> set s"
  shows "\<exists>ts mk file. history_form s ts mk file
           \<and> m = c(1 \<mapsto> ts, 2 \<mapsto> [mk], 3 \<mapsto> file)"
proof -
  let ?M = "\<lambda>c. c = CHR ''+'' \<or> c = CHR ''.''"
  let ?N = "\<lambda>c. c \<noteq> newline"
  from assms(1) obtain ts ws1 s2 c2 ws2 s4 s5 c5 where
    o: "s = ts @ ws1 @ s2" "is_timestamp ts" "ws1 \<noteq> []" "list_all isspace ws1"
       "(ws2 @ s4, c2) \<in> set (ms (Grp 2 (Cls ?M)) s2 (c(1 \<mapsto> ts)))"
       "ws2 \<noteq> []" "list_all isspace ws2"
       "(s5, c5) \<in> set (ms (Grp 3 (Plus ?N)) s4 c2)"
       "(s', m) \<in> set (ms Eol s5 c5)"
    unfolding history_pattern_def in_ms_Seq in_ms_Plus in_ms_Grp_timestamp by blast
  from o(5) obtain mk where
    k: "s2 = mk # ws2 @ s4" "mk = CHR ''+'' \<or> mk = CHR ''.''"
       "c2 = c(1 \<mapsto> ts, 2 \<mapsto> take (length s2 - length (ws2 @ s4)) s2)"
    unfolding in_ms_Grp in_ms_Cls by blast
  have k2: "take (length s2 - length (ws2 @ s4)) s2 = [mk]"
    using take_matched [of s2 "[mk]" "ws2 @ s4"] k(1) by simp
  from o(8) obtain fname where
    f: "s4 = fname @ s5" "fname \<noteq> []"
       "c5 = c2(3 \<mapsto> take (length s4 - length s5) s4)"
    unfolding in_ms_Grp in_ms_Plus by blast
  have f2: "take (length s4 - length s5) s4 = fname"
    using take_matched [of s4 fname s5] f(1) by simp
  from o(9) have e: "s' = s5" "m = c5" "s5 = [] \<or> s5 = [newline]"
    unfolding in_ms_Eol by simp_all
  have "s5 \<noteq> [newline]"
    using assms(2) o(1) k(1) f(1) by auto
  with e(3) have "s5 = []" by simp
  then have "s = ts @ ws1 @ [mk] @ ws2 @ fname"
    using o(1) k(1) f(1) by simp
  then have "history_form s ts mk fname"
    unfolding history_form_def using o(2-4,6,7) k(2) f(2) by blast
  moreover have "m = c(1 \<mapsto> ts, 2 \<mapsto> [mk], 3 \<mapsto> fname)"
    unfolding e(2) f(3) f2 k(3) k2 ..
  ultimately show ?thesis by blast
qed

subsection \<open>The first match of a greedy repetition\<close>

lemma concat_greedy:
  assumes "\<And>k. 1 \<le> k \<Longrightarrow> k < n \<Longrightarrow> f k = []"
  shows "concat (map f (rev [1 ..< Suc n])) = (if n = 0 then [] else f n)"
proof (cases n)
  case 0
  then show ?thesis by simp
next
  case (Suc j)
  have "concat (map f (rev [1 ..< Suc j])) = []"
    using assms Suc by (auto simp del: upt_Suc)
  then show ?thesis
    using Suc by simp
qed

lemma ms_Seq_Plus:
  "ms (Seq (Plus C) b) s c
     = concat (map (\<lambda>k. ms b (drop k s) c) (rev [1 ..< Suc (length (takeWhile C s))]))"
  by (simp add: o_def del: upt_Suc)

lemma ms_Seq_Grp_Plus:
  "ms (Seq (Grp n (Plus C)) b) s c
     = concat (map (\<lambda>k. ms b (drop k s) (c(n \<mapsto> take (length s - length (drop k s)) s)))
                 (rev [1 ..< Suc (length (takeWhile C s))]))"
  by (simp add: o_def del: upt_Suc)

lemma ms_Seq_Plus_possessive:
  assumes "\<And>t c. t \<noteq> [] \<Longrightarrow> C (hd t) \<Longrightarrow> ms b t c = []"
  shows "ms (Seq (Plus C) b) s c
           = (if takeWhile C s = [] then [] else ms b (dropWhile C s) c)"
proof -
  have "ms b (drop k s) c = []" if "1 \<le> k" "k < length (takeWhile C s)" for k
  proof -
    have "k < length s"
      using that(2) length_takeWhile_le [of C s] by simp
    then have "drop k s \<noteq> []" by simp
    moreover have "hd (drop k s) = s ! k"
      using \<open>k < length s\<close> by (simp add: hd_drop_conv_nth)
    moreover have "C (s ! k)"
      using that(2) by (metis nth_mem set_takeWhileD takeWhile_nth)
    ultimately show ?thesis
      using assms by simp
  qed
  then have "ms (Seq (Plus C) b) s c
      = (if length (takeWhile C s) = 0 then []
         else ms b (drop (length (takeWhile C s)) s) c)"
    unfolding ms_Seq_Plus by (rule concat_greedy)
  then show ?thesis
    by (simp add: dropWhile_eq_drop)
qed

lemma ms_text_to_end:
  assumes "newline \<notin> set r" and "r \<noteq> []"
  shows "ms (Seq (Grp 3 (Plus (\<lambda>c. c \<noteq> newline))) Eol) r c = [([], c(3 \<mapsto> r))]"
proof -
  let ?f = "\<lambda>k. ms Eol (drop k r) (c(3 \<mapsto> take (length r - length (drop k r)) r))"
  have tw: "takeWhile (\<lambda>c. c \<noteq> newline) r = r"
    using assms(1) by (auto simp: takeWhile_eq_all_conv)
  have "?f k = []" if "1 \<le> k" "k < length r" for k
  proof -
    have "drop k r \<noteq> []" using that(2) by simp
    moreover have "drop k r \<noteq> [newline]"
      using assms(1) by (metis in_set_dropD list.set_intros(1))
    ultimately show ?thesis by simp
  qed
  then have "concat (map ?f (rev [1 ..< Suc (length r)])) = (if length r = 0 then [] else ?f (length r))"
    by (rule concat_greedy)
  then show ?thesis
    unfolding ms_Seq_Grp_Plus tw using assms(2) by simp
qed

lemma ms_timestamp_at_most_one:
  "ms timestamp_re s c = [] \<or> (\<exists>s1. ms timestamp_re s c = [(s1, c)])"
  by (simp add: timestamp_re_def)

lemma isspace_not_marker: "isspace x \<Longrightarrow> x \<noteq> CHR ''+'' \<and> x \<noteq> CHR ''.''"
  by (auto simp: isspace_def)

lemma ms_greedy_head:
  assumes "takeWhile C s \<noteq> []" and "ms b (dropWhile C s) c = x # xs"
  shows "\<exists>ys. ms (Seq (Plus C) b) s c = x # ys"
proof -
  obtain j where j: "length (takeWhile C s) = Suc j"
    using assms(1) by (cases "takeWhile C s") auto
  have "rev [1 ..< Suc (Suc j)] = Suc j # rev [1 ..< Suc j]"
    by simp
  then have "ms (Seq (Plus C) b) s c
      = ms b (drop (Suc j) s) c @ concat (map (\<lambda>k. ms b (drop k s) c) (rev [1 ..< Suc j]))"
    unfolding ms_Seq_Plus j by simp
  moreover have "drop (Suc j) s = dropWhile C s"
    using j by (metis dropWhile_eq_drop)
  ultimately show ?thesis
    using assms(2) by simp
qed

lemma ms_Seq_Grp_empty:
  "ms r s c = [] \<Longrightarrow> ms (Seq (Grp n r) b) s c = []"
  by simp

lemma ms_Seq_Grp_single:
  "ms r s c = [(s1, c1)]
   \<Longrightarrow> ms (Seq (Grp n r) b) s c = ms b s1 (c1(n \<mapsto> take (length s - length s1) s))"
  by simp

lemma ms_Seq_Grp_Cls:
  "ms (Seq (Grp n (Cls C)) b) s c
     = (case s of
          [] \<Rightarrow> []
        | x # xs \<Rightarrow> if C x then ms b xs (c(n \<mapsto> take (length s - length xs) s)) else [])"
  by (cases s) simp_all

lemma history_match_file:
  assumes "match_re history_pattern s = Some m" and "newline \<notin> set s"
    and "\<not> isspace (last s)"
  shows "\<exists>f. m 3 = Some f \<and> f \<noteq> [] \<and> \<not> isspace (hd f)"
proof -
  let ?R4 = "Seq (Grp 3 (Plus (\<lambda>c. c \<noteq> newline))) Eol"
  let ?R3 = "Seq (Plus isspace) ?R4"
  let ?R2 = "Seq (Grp 2 (Cls (\<lambda>c. c = CHR ''+'' \<or> c = CHR ''.''))) ?R3"
  let ?R1 = "Seq (Plus isspace) ?R2"
  let ?c = "Map.empty :: caps"
  have hp: "history_pattern = Seq (Grp 1 timestamp_re) ?R1"
    by (simp add: history_pattern_def)
  from assms(1) obtain s' rest where ne: "ms history_pattern s ?c = (s', m) # rest"
    by (auto simp: match_re_def split: list.splits)
  have "ms timestamp_re s ?c \<noteq> []"
  proof
    assume "ms timestamp_re s ?c = []"
    then have "ms history_pattern s ?c = []"
      unfolding hp by (rule ms_Seq_Grp_empty)
    with ne show False by (simp del: ms.simps)
  qed
  then obtain s1 where t1: "ms timestamp_re s ?c = [(s1, ?c)]"
    using ms_timestamp_at_most_one [of s ?c] by blast
  then have "(s1, ?c) \<in> set (ms timestamp_re s ?c)" by simp
  then obtain ts where ts: "s = ts @ s1"
    unfolding in_ms_timestamp by blast
  let ?c1 = "?c(1 \<mapsto> take (length s - length s1) s)"
  have e1: "ms history_pattern s ?c = ms ?R1 s1 ?c1"
    unfolding hp using t1 by (rule ms_Seq_Grp_single)
  have rej: "ms ?R2 t c = []" if "t \<noteq> []" "isspace (hd t)" for t c
    unfolding ms_Seq_Grp_Cls using that isspace_not_marker [of "hd t"] by (cases t) auto
  have e2: "ms ?R1 s1 ?c1
      = (if takeWhile isspace s1 = [] then [] else ms ?R2 (dropWhile isspace s1) ?c1)"
    by (rule ms_Seq_Plus_possessive) (rule rej)
  let ?s2 = "dropWhile isspace s1"
  have n2: "ms ?R2 ?s2 ?c1 = (s', m) # rest"
  proof (cases "takeWhile isspace s1 = []")
    case True
    with ne e1 e2 show ?thesis by (simp del: ms.simps)
  next
    case False
    with ne e1 e2 show ?thesis by (simp del: ms.simps)
  qed
  have c2: "ms ?R2 ?s2 ?c1
      = (case ?s2 of
           [] \<Rightarrow> []
         | x # xs \<Rightarrow>
             if x = CHR ''+'' \<or> x = CHR ''.''
             then ms ?R3 xs (?c1(2 \<mapsto> take (length ?s2 - length xs) ?s2))
             else [])"
    by (rule ms_Seq_Grp_Cls)
  obtain x s3 where s2: "?s2 = x # s3"
    using n2 c2 by (cases ?s2) (simp_all only: list.case list.distinct)
  let ?c2 = "?c1(2 \<mapsto> take (length ?s2 - length s3) ?s2)"
  have e3: "ms ?R2 ?s2 ?c1 = ms ?R3 s3 ?c2"
  proof (cases "x = CHR ''+'' \<or> x = CHR ''.''")
    case True
    show ?thesis
      using c2 True unfolding s2 by (simp only: list.case if_True)
  next
    case False
    have "ms ?R2 ?s2 ?c1 = []"
      using c2 False unfolding s2 by (simp only: list.case if_False)
    with n2 show ?thesis by (simp del: ms.simps)
  qed
  have tw: "takeWhile isspace s3 \<noteq> []"
  proof
    assume "takeWhile isspace s3 = []"
    then have "ms ?R3 s3 ?c2 = []"
      unfolding ms_Seq_Plus by simp
    with n2 e3 show False by (simp del: ms.simps)
  qed
  then have s3: "s3 \<noteq> []" by auto
  have suf: "s = (ts @ takeWhile isspace s1 @ [x]) @ s3"
    using ts s2 takeWhile_dropWhile_id [of isspace s1] by (metis append.assoc append_Cons append_Nil)
  have "last s3 = last s"
    using suf s3 by (metis last_appendR)
  then have l3: "\<not> isspace (last s3)"
    using assms(3) by simp
  let ?r = "dropWhile isspace s3"
  have r: "?r \<noteq> []"
  proof
    assume "?r = []"
    then have "\<forall>y\<in>set s3. isspace y"
      by (simp add: dropWhile_eq_Nil_conv)
    then have "isspace (last s3)"
      using s3 by simp
    with l3 show False by simp
  qed
  have "set ?r \<subseteq> set s"
    using suf set_dropWhileD [of _ isspace s3] by auto
  then have nl: "newline \<notin> set ?r"
    using assms(2) by blast
  have "ms ?R4 ?r ?c2 = [([], ?c2(3 \<mapsto> ?r))]"
    by (rule ms_text_to_end [OF nl r])
  then obtain ys where "ms ?R3 s3 ?c2 = ([], ?c2(3 \<mapsto> ?r)) # ys"
    using ms_greedy_head [OF tw, of ?R4 ?c2] by blast
  then have "m = ?c2(3 \<mapsto> ?r)"
    using n2 e3 by (simp del: ms.simps)
  then have "m 3 = Some ?r" by simp
  moreover have "\<not> isspace (hd ?r)"
    using r hd_dropWhile by blast
  ultimately show ?thesis
    using r by blast
qed

subsection \<open>Lines and the two loops\<close>

lemma not_linebreak_not_newline: "\<not> islinebreak c \<Longrightarrow> c \<noteq> newline"
  by (auto simp: islinebreak_def)

lemma splitlines_from_no_newline:
  "newline \<notin> set cur \<Longrightarrow> l \<in> set (splitlines_from cur s) \<Longrightarrow> newline \<notin> set l"
proof (induction cur s rule: splitlines_from.induct)
  case (1 cur)
  then show ?case by (simp split: if_splits)
next
  case (2 cur c cs)
  show ?case
  proof (cases "c = carriage_return")
    case cr: True
    show ?thesis
    proof (cases cs)
      case Nil
      with "2.prems" cr show ?thesis by simp
    next
      case (Cons d ds)
      show ?thesis
      proof (cases "d = newline")
        case True
        with "2.prems" cr Cons have "l = cur \<or> l \<in> set (splitlines_from [] ds)" by simp
        then show ?thesis
          using "2.IH"(1) [OF cr Cons True] "2.prems"(1) by auto
      next
        case False
        with "2.prems" cr Cons have "l = cur \<or> l \<in> set (splitlines_from [] (d # ds))" by simp
        then show ?thesis
          using "2.IH"(2) [OF cr Cons False] "2.prems"(1) by auto
      qed
    qed
  next
    case ncr: False
    show ?thesis
    proof (cases "islinebreak c")
      case True
      with "2.prems" ncr have "l = cur \<or> l \<in> set (splitlines_from [] cs)" by simp
      then show ?thesis
        using "2.IH"(3) [OF ncr True] "2.prems"(1) by auto
    next
      case False
      with "2.prems" ncr have "l \<in> set (splitlines_from (cur @ [c]) cs)" by simp
      moreover have "newline \<notin> set (cur @ [c])"
        using "2.prems"(1) not_linebreak_not_newline [OF False] by simp
      ultimately show ?thesis
        using "2.IH"(4) [OF ncr False] by blast
    qed
  qed
qed

lemma splitlines_no_newline: "l \<in> set (splitlines s) \<Longrightarrow> newline \<notin> set l"
  using splitlines_from_no_newline [of "[]" l s] by (simp add: splitlines_def)

lemma strip_subset: "set (strip s) \<subseteq> set s"
proof -
  have "set (strip s) \<subseteq> set (dropWhile isspace s)"
    unfolding strip_def using set_dropWhileD [of _ isspace "rev (dropWhile isspace s)"] by auto
  then show ?thesis
    using set_dropWhileD [of _ isspace s] by blast
qed

lemma strip_last: "strip s \<noteq> [] \<Longrightarrow> \<not> isspace (last (strip s))"
  unfolding strip_def using hd_dropWhile [of isspace "rev (dropWhile isspace s)"]
  by (simp add: last_rev)

lemma list_backups_loop_mem:
  "b \<in> set (list_backups_loop lines acc) \<Longrightarrow>
   b \<in> set acc \<or>
   (\<exists>line m. line \<in> set lines \<and> match_re list_pattern (strip line) = Some m
      \<and> b = [(''filename'', m 1), (''timestamp'', m 2), (''type'', m 3)])"
proof (induction lines arbitrary: acc)
  case Nil
  then show ?case by simp
next
  case (Cons line lines)
  show ?case
  proof (cases "match_re list_pattern (strip line)")
    case None
    with Cons.prems have "b \<in> set (list_backups_loop lines acc)" by simp
    from Cons.IH [OF this] show ?thesis by auto
  next
    case (Some m)
    with Cons.prems have "b \<in> set (list_backups_loop lines
        (acc @ [[(''filename'', m 1), (''timestamp'', m 2), (''type'', m 3)]]))" by simp
    from Cons.IH [OF this] Some show ?thesis by auto
  qed
qed

lemma list_backups_loop_skip:
  "match_re list_pattern (strip line) = None \<Longrightarrow>
   list_backups_loop (pre @ line # post) acc = list_backups_loop (pre @ post) acc"
  by (induction pre arbitrary: acc) (auto split: option.splits)

lemma get_history_loop_mem:
  "e \<in> set (get_history_loop lines acc) \<Longrightarrow>
   e \<in> set acc \<or>
   (\<exists>line m. line \<in> set lines \<and> match_re history_pattern (strip line) = Some m
      \<and> e = [(''timestamp'', m 1),
              (''status'', Some (if m 2 = Some ''+'' then ''new'' else ''modified'')),
              (''file'', m 3)])"
proof (induction lines arbitrary: acc)
  case Nil
  then show ?case by simp
next
  case (Cons line lines)
  show ?case
  proof (cases "match_re history_pattern (strip line)")
    case None
    with Cons.prems have "e \<in> set (get_history_loop lines acc)" by simp
    from Cons.IH [OF this] show ?thesis by (auto split del: if_split)
  next
    case (Some m)
    with Cons.prems have "e \<in> set (get_history_loop lines
        (acc @ [[(''timestamp'', m 1),
                 (''status'', Some (if m 2 = Some ''+'' then ''new'' else ''modified'')),
                 (''file'', m 3)]]))" by simp
    from Cons.IH [OF this] Some show ?thesis by (auto split del: if_split)
  qed
qed

lemma list_pattern_match:
  assumes "match_re list_pattern s = Some m"
  shows "\<exists>ts ty. indexed_form s ts ty
           \<and> m 1 = Some (''datezip_'' @ ts @ ''_'' @ ty @ ''.zip'')
           \<and> m 2 = Some ts \<and> m 3 = Some ty"
proof -
  from match_re_SomeD [OF assms] obtain s' where "(s', m) \<in> set (ms list_pattern s Map.empty)"
    by blast
  from list_pattern_sound [OF this] obtain ts ty where
    "indexed_form s ts ty"
    "m = [2 \<mapsto> ts, 3 \<mapsto> ty, 1 \<mapsto> ''datezip_'' @ ts @ ''_'' @ ty @ ''.zip'']"
    by blast
  then show ?thesis by auto
qed

lemma history_pattern_match:
  assumes "match_re history_pattern s = Some m" and "newline \<notin> set s"
    and "s \<noteq> [] \<Longrightarrow> \<not> isspace (last s)"
  shows "\<exists>ts mk fl. history_form s ts mk fl \<and> \<not> isspace (hd fl)
           \<and> m 1 = Some ts \<and> m 2 = Some [mk] \<and> m 3 = Some fl"
proof -
  from match_re_SomeD [OF assms(1)] obtain s' where
    "(s', m) \<in> set (ms history_pattern s Map.empty)"
    by blast
  from history_pattern_sound [OF this assms(2)] obtain ts mk fl where
    h: "history_form s ts mk fl" "m = [1 \<mapsto> ts, 2 \<mapsto> [mk], 3 \<mapsto> fl]"
    by blast
  from h(1) have "s \<noteq> []"
    by (auto simp: history_form_def)
  then have "\<not> isspace (last s)" by (rule assms(3))
  from history_match_file [OF assms(1,2) this] obtain f where
    "m 3 = Some f" "\<not> isspace (hd f)"
    by blast
  with h show ?thesis by auto
qed

text \<open>
  C6. The list \<open>list_backups\<close> returns is what the loop builds from the lines of the
  command's output. Every element comes from one line that, stripped, has the indexed form,
  and holds the file name \<open>datezip_<timestamp>_<FULL|INC>.zip\<close>, that timestamp (eight
  digits, an underscore, six digits) and that type. A line that has not the indexed form
  can be removed from the output without changing the result.
\<close>

theorem list_backups_elements:
  assumes "P [''--list''] (fs w) = (Inr (code, out, err), f1)"
    and "fst (list_backups P w) = Inr backups"
  shows "backups = list_backups_loop (splitlines (strip out)) []
       \<and> (\<forall>b \<in> set backups.
            \<exists>line ts ty. line \<in> set (splitlines (strip out))
              \<and> indexed_form (strip line) ts ty
              \<and> b = [(''filename'', Some (''datezip_'' @ ts @ ''_'' @ ty @ ''.zip'')),
                     (''timestamp'', Some ts), (''type'', Some ty)])
       \<and> (\<forall>pre line post.
            (\<forall>ts ty. \<not> indexed_form (strip line) ts ty)
            \<longrightarrow> list_backups_loop (pre @ line # post) []
                  = list_backups_loop (pre @ post) [])"
proof -
  have r: "backups = list_backups_loop (splitlines (strip out)) []"
    using list_backups_exit [of P w code out err f1, OF assms(1)] assms(2)
    by (simp split: if_splits)
  have a: "\<exists>line ts ty. line \<in> set (splitlines (strip out))
              \<and> indexed_form (strip line) ts ty
              \<and> b = [(''filename'', Some (''datezip_'' @ ts @ ''_'' @ ty @ ''.zip'')),
                     (''timestamp'', Some ts), (''type'', Some ty)]"
    if "b \<in> set backups" for b
  proof -
    from that r list_backups_loop_mem [of b "splitlines (strip out)" "[]"]
    obtain line m where
      l: "line \<in> set (splitlines (strip out))" "match_re list_pattern (strip line) = Some m"
         "b = [(''filename'', m 1), (''timestamp'', m 2), (''type'', m 3)]"
      by auto
    from list_pattern_match [OF l(2)] obtain ts ty where
      "indexed_form (strip line) ts ty"
      "m 1 = Some (''datezip_'' @ ts @ ''_'' @ ty @ ''.zip'')" "m 2 = Some ts" "m 3 = Some ty"
      by blast
    with l(1,3) show ?thesis by blast
  qed
  have n: "list_backups_loop (pre @ line # post) [] = list_backups_loop (pre @ post) []"
    if "\<forall>ts ty. \<not> indexed_form (strip line) ts ty" for pre line post
  proof -
    have "match_re list_pattern (strip line) = None"
    proof (cases "match_re list_pattern (strip line)")
      case None
      then show ?thesis .
    next
      case (Some m)
      from list_pattern_match [OF this] that show ?thesis by blast
    qed
    then show ?thesis by (rule list_backups_loop_skip)
  qed
  show ?thesis
    using r a n by blast
qed

lemma sample_list_backups:
  "fst (list_backups datezip_listing sample_world)
     = Inr [[(''filename'', Some ''datezip_20240216_143000_FULL.zip''),
             (''timestamp'', Some ''20240216_143000''), (''type'', Some ''FULL'')],
            [(''filename'', Some ''datezip_20240217_090000_INC.zip''),
             (''timestamp'', Some ''20240217_090000''), (''type'', Some ''INC'')]]"
  by code_simp

lemma sample_get_history:
  "fst (get_history datezip_listing None None None sample_world)
     = Inr [[(''timestamp'', Some ''20240216_143000''), (''status'', Some ''new''),
             (''file'', Some ''a.txt'')],
            [(''timestamp'', Some ''20240217_090000''), (''status'', Some ''modified''),
             (''file'', Some ''a.txt'')],
            [(''timestamp'', Some ''20240217_090000''), (''status'', Some ''new''),
             (''file'', Some ''my notes.txt'')]]"
  by code_simp

theorem list_backups_elements_witness:
  "datezip_listing [''--list''] (fs sample_world)
     = (Inr (0, sample_list_output, []), fs sample_world)
   \<and> fst (list_backups datezip_listing sample_world)
       = Inr [[(''filename'', Some ''datezip_20240216_143000_FULL.zip''),
               (''timestamp'', Some ''20240216_143000''), (''type'', Some ''FULL'')],
              [(''filename'', Some ''datezip_20240217_090000_INC.zip''),
               (''timestamp'', Some ''20240217_090000''), (''type'', Some ''INC'')]]
   \<and> (\<exists>line ts ty. line \<in> set (splitlines (strip sample_list_output))
          \<and> indexed_form (strip line) ts ty
          \<and> [(''filename'', Some ''datezip_20240217_090000_INC.zip''),
              (''timestamp'', Some ''20240217_090000''), (''type'', Some ''INC'')]
            = [(''filename'', Some (''datezip_'' @ ts @ ''_'' @ ty @ ''.zip'')),
               (''timestamp'', Some ts), (''type'', Some ty)])
   \<and> list_backups_loop ([] @ ''Available backups:'' # [''[7] datezip_20240216_143000_FULL.zip'']) []
       = list_backups_loop ([] @ [''[7] datezip_20240216_143000_FULL.zip'']) []"
proof -
  let ?e1 = "[(''filename'', Some ''datezip_20240216_143000_FULL.zip''),
               (''timestamp'', Some ''20240216_143000''), (''type'', Some ''FULL'')]"
  let ?e2 = "[(''filename'', Some ''datezip_20240217_090000_INC.zip''),
              (''timestamp'', Some ''20240217_090000''), (''type'', Some ''INC'')]"
  have h: "datezip_listing [''--list''] (fs sample_world)
     = (Inr (0, sample_list_output, []), fs sample_world)"
    by (simp add: datezip_listing_def)
  have r: "fst (list_backups datezip_listing sample_world) = Inr [?e1, ?e2]"
    by (rule sample_list_backups)
  note t = list_backups_elements [of datezip_listing sample_world 0 sample_list_output "[]"
      "fs sample_world" "[?e1, ?e2]", OF h r]
  have m: "?e2 \<in> set [?e1, ?e2]" by simp
  have a: "\<exists>line ts ty. line \<in> set (splitlines (strip sample_list_output))
          \<and> indexed_form (strip line) ts ty
          \<and> ?e2 = [(''filename'', Some (''datezip_'' @ ts @ ''_'' @ ty @ ''.zip'')),
                    (''timestamp'', Some ts), (''type'', Some ty)]"
    using t m by blast
  have "strip ''Available backups:'' = ''Available backups:''"
    by (simp add: strip_def isspace_def)
  then have k: "\<forall>ts ty. \<not> indexed_form (strip ''Available backups:'') ts ty"
    by (simp add: indexed_form_def)
  have n: "list_backups_loop ([] @ ''Available backups:'' # [''[7] datezip_20240216_143000_FULL.zip'']) []
       = list_backups_loop ([] @ [''[7] datezip_20240216_143000_FULL.zip'']) []"
    using t k by blast
  show ?thesis
    by (intro conjI) (fact h, fact r, fact a, fact n)
qed

text \<open>
  C7. The list \<open>get_history\<close> returns is what the loop builds from the lines of the
  command's output. Every entry comes from one line that, stripped, is a timestamp, white
  space, a marker, white space and the file; the entry holds that timestamp, the file (all
  that follows the white space after the marker), and the status, which is \<open>new\<close> exactly
  when the marker is \<open>+\<close> and \<open>modified\<close> exactly when it is \<open>.\<close>.
\<close>

theorem get_history_entries:
  assumes "P (get_history_args files from_ts to_ts) (fs w) = (Inr (code, out, err), f2)"
    and "fst (get_history P files from_ts to_ts w) = Inr history"
  shows "history = get_history_loop (splitlines (strip out)) []
       \<and> (\<forall>e \<in> set history.
            \<exists>line ts mk file status.
              line \<in> set (splitlines (strip out))
              \<and> history_form (strip line) ts mk file \<and> \<not> isspace (hd file)
              \<and> e = [(''timestamp'', Some ts), (''status'', Some status), (''file'', Some file)]
              \<and> (status = ''new'' \<or> status = ''modified'')
              \<and> (status = ''new'' \<longleftrightarrow> mk = CHR ''+'')
              \<and> (status = ''modified'' \<longleftrightarrow> mk = CHR ''.''))"
proof -
  have r: "history = get_history_loop (splitlines (strip out)) []"
    using get_history_exit [of P files from_ts to_ts w code out err f2, OF assms(1)] assms(2)
    by (simp split: if_splits)
  have a: "\<exists>line ts mk fl status.
              line \<in> set (splitlines (strip out))
              \<and> history_form (strip line) ts mk fl \<and> \<not> isspace (hd fl)
              \<and> e = [(''timestamp'', Some ts), (''status'', Some status), (''file'', Some fl)]
              \<and> (status = ''new'' \<or> status = ''modified'')
              \<and> (status = ''new'' \<longleftrightarrow> mk = CHR ''+'')
              \<and> (status = ''modified'' \<longleftrightarrow> mk = CHR ''.'')"
    if "e \<in> set history" for e
  proof -
    from that r get_history_loop_mem [of e "splitlines (strip out)" "[]"]
    obtain line m where
      l: "line \<in> set (splitlines (strip out))"
         "match_re history_pattern (strip line) = Some m"
         "e = [(''timestamp'', m 1),
               (''status'', Some (if m 2 = Some ''+'' then ''new'' else ''modified'')),
               (''file'', m 3)]"
      by auto
    have nl: "newline \<notin> set (strip line)"
      using splitlines_no_newline [OF l(1)] strip_subset [of line] by blast
    from history_pattern_match [OF l(2) nl strip_last] obtain ts mk fl where
      h: "history_form (strip line) ts mk fl" "\<not> isspace (hd fl)"
         "m 1 = Some ts" "m 2 = Some [mk]" "m 3 = Some fl"
      by blast
    from h(1) have mk: "mk = CHR ''+'' \<or> mk = CHR ''.''"
      unfolding history_form_def by blast
    let ?status = "if mk = CHR ''+'' then ''new'' else ''modified''"
    have e: "e = [(''timestamp'', Some ts), (''status'', Some ?status), (''file'', Some fl)]"
      using l(3) h(3-5) by simp
    have s: "(?status = ''new'' \<or> ?status = ''modified'')
           \<and> (?status = ''new'' \<longleftrightarrow> mk = CHR ''+'')
           \<and> (?status = ''modified'' \<longleftrightarrow> mk = CHR ''.'')"
      using mk by auto
    show ?thesis
      using l(1) h(1,2) e s by blast
  qed
  show ?thesis
    using r a by blast
qed

theorem get_history_entries_witness:
  "datezip_listing (get_history_args None None None) (fs sample_world)
     = (Inr (0, sample_history_output, []), fs sample_world)
   \<and> fst (get_history datezip_listing None None None sample_world)
       = Inr [[(''timestamp'', Some ''20240216_143000''), (''status'', Some ''new''),
               (''file'', Some ''a.txt'')],
              [(''timestamp'', Some ''20240217_090000''), (''status'', Some ''modified''),
               (''file'', Some ''a.txt'')],
              [(''timestamp'', Some ''20240217_090000''), (''status'', Some ''new''),
               (''file'', Some ''my notes.txt'')]]
   \<and> (\<exists>line ts mk file status.
          line \<in> set (splitlines (strip sample_history_output))
          \<and> history_form (strip line) ts mk file \<and> \<not> isspace (hd file)
          \<and> [(''timestamp'', Some ''20240217_090000''), (''status'', Some ''modified''),
              (''file'', Some ''a.txt'')]
            = [(''timestamp'', Some ts), (''status'', Some status), (''file'', Some file)]
          \<and> (status = ''new'' \<or> status = ''modified'')
          \<and> (status = ''new'' \<longleftrightarrow> mk = CHR ''+'')
          \<and> (status = ''modified'' \<longleftrightarrow> mk = CHR ''.''))"
proof -
  let ?e1 = "[(''timestamp'', Some ''20240216_143000''), (''status'', Some ''new''),
               (''file'', Some ''a.txt'')]"
  let ?e2 = "[(''timestamp'', Some ''20240217_090000''), (''status'', Some ''modified''),
               (''file'', Some ''a.txt'')]"
  let ?e3 = "[(''timestamp'', Some ''20240217_090000''), (''status'', Some ''new''),
               (''file'', Some ''my notes.txt'')]"
  have h: "datezip_listing (get_history_args None None None) (fs sample_world)
     = (Inr (0, sample_history_output, []), fs sample_world)"
    by (simp add: datezip_listing_def get_history_args_def)
  have r: "fst (get_history datezip_listing None None None sample_world) = Inr [?e1, ?e2, ?e3]"
    by (rule sample_get_history)
  note t = get_history_entries [of datezip_listing None None None sample_world 0
      sample_history_output "[]" "fs sample_world" "[?e1, ?e2, ?e3]", OF h r]
  have m: "?e2 \<in> set [?e1, ?e2, ?e3]" by simp
  have a: "\<exists>line ts mk file status.
          line \<in> set (splitlines (strip sample_history_output))
          \<and> history_form (strip line) ts mk file \<and> \<not> isspace (hd file)
          \<and> ?e2 = [(''timestamp'', Some ts), (''status'', Some status), (''file'', Some file)]
          \<and> (status = ''new'' \<or> status = ''modified'')
          \<and> (status = ''new'' \<longleftrightarrow> mk = CHR ''+'')
          \<and> (status = ''modified'' \<longleftrightarrow> mk = CHR ''.'')"
    using t m by blast
  show ?thesis
    by (intro conjI) (fact h, fact r, fact a)
qed

end
